theory Spec2Isabelle
  imports Main "HOL-Library.Word" "HOL-Library.Signed_Division"
begin


unbundle bit_operations_syntax

section \<open>Machine types\<close>

type_synonym u8 = "8 word"
type_synonym u32 = "32 word"

section \<open>Opcode classifiers (trace.c, lines 28-38)\<close>

text \<open>
  The macros take the \<open>uint8_t\<close> input byte. C promotes it to \<open>int\<close> before masking;
  every mask is below 256, so the 8-bit operation gives the same value.
\<close>

definition TRACE_OP_IS_OVERFLOW :: "u8 \<Rightarrow> bool" where
  "TRACE_OP_IS_OVERFLOW c = (c = 0x70)"

definition TRACE_OP_IS_LOCAL_TIME :: "u8 \<Rightarrow> bool" where
  "TRACE_OP_IS_LOCAL_TIME c = (c AND 0x0f = 0x00 \<and> c AND 0x70 \<noteq> 0x00)"

definition TRACE_OP_IS_EXTENSION :: "u8 \<Rightarrow> bool" where
  "TRACE_OP_IS_EXTENSION c = (c AND 0x0b = 0x08)"

definition TRACE_OP_IS_GLOBAL_TIME :: "u8 \<Rightarrow> bool" where
  "TRACE_OP_IS_GLOBAL_TIME c = (c AND 0xdf = 0x94)"

definition TRACE_OP_IS_SOURCE :: "u8 \<Rightarrow> bool" where
  "TRACE_OP_IS_SOURCE c = (c AND 0x03 \<noteq> 0x00)"

definition TRACE_OP_IS_SW_SOURCE :: "u8 \<Rightarrow> bool" where
  "TRACE_OP_IS_SW_SOURCE c = (c AND 0x03 \<noteq> 0x00 \<and> c AND 0x04 = 0x00)"

definition TRACE_OP_IS_HW_SOURCE :: "u8 \<Rightarrow> bool" where
  "TRACE_OP_IS_HW_SOURCE c = (c AND 0x03 \<noteq> 0x00 \<and> c AND 0x04 = 0x04)"

definition TRACE_OP_IS_TARGET_SOURCE :: "u8 \<Rightarrow> bool" where
  "TRACE_OP_IS_TARGET_SOURCE c = (c = 0x01)"

definition TRACE_OP_GET_CONTINUATION :: "u8 \<Rightarrow> u8" where
  "TRACE_OP_GET_CONTINUATION c = c AND 0x80"

definition TRACE_OP_GET_SOURCE_SIZE :: "u8 \<Rightarrow> u8" where
  "TRACE_OP_GET_SOURCE_SIZE c = c AND 0x03"

definition TRACE_OP_GET_SW_SOURCE_ADDR :: "u8 \<Rightarrow> u8" where
  "TRACE_OP_GET_SW_SOURCE_ADDR c = drop_bit 3 c"

section \<open>Decoder state (trace.c, lines 115-140)\<close>

datatype trace_state =
    TRACE_STATE_IDLE
  | TRACE_STATE_TARGET_SOURCE
  | TRACE_STATE_SKIP_FRAME
  | TRACE_STATE_SKIP_4
  | TRACE_STATE_SKIP_3
  | TRACE_STATE_SKIP_2
  | TRACE_STATE_SKIP_1

text \<open>
  \<open>st_trace_t\<close>. \<open>time_t\<close> is a signed integer wider than the 32 bits the elapsed time
  is cut to, so \<open>start_time\<close> is an \<open>int\<close>. The array \<open>unknown_opcodes[256 / 8]\<close> is a
  list of bytes; an access outside it is the value \<open>None\<close> of the operation doing it.
\<close>

record st_trace_t =
  start_time :: int
  configuration_checked :: bool
  state :: trace_state
  count_raw_bytes :: u32
  count_target_data :: u32
  count_time_packets :: u32
  count_overflow :: u32
  count_error :: u32
  unknown_opcodes :: "u8 list"
  unknown_sources :: u32

text \<open>\<open>st_trace_t trace = {}\<close> (line 530): every field zero, the state \<open>TRACE_STATE_IDLE\<close>.\<close>

definition trace_zero :: st_trace_t where
  "trace_zero =
     \<lparr> start_time = 0, configuration_checked = False, state = TRACE_STATE_IDLE,
       count_raw_bytes = 0, count_target_data = 0, count_time_packets = 0,
       count_overflow = 0, count_error = 0,
       unknown_opcodes = replicate 32 0, unknown_sources = 0 \<rparr>"

section \<open>Observable effects\<close>

text \<open>
  What the program does to the outside is recorded as a list of events, in the order of
  the calls: bytes written with \<open>putchar\<close>, \<open>fflush(stdout)\<close>, the log macros
  (\<open>ELOG\<close>, \<open>WLOG\<close>, \<open>ILOG\<close>, \<open>DLOG\<close>) with the values they format, and the calls into
  the probe driver.
\<close>

datatype log_level = UERROR | UWARN | UINFO | UDEBUG

datatype message =
    MsgUnsupportedSource u8 u8
  | MsgUnknownOpcode u8
  | MsgInvalidState
  | MsgErrorReadingTrace int
  | MsgStars
  | MsgNotRetrieving
  | MsgRawBytes u32
  | MsgTargetData u32
  | MsgTimePackets u32
  | MsgOverflowCount u32
  | MsgErrors u32
  | MsgSeenOpcode nat
  | MsgSeenSource nat
  | MsgCheckClock
  | MsgCheckClockInit
  | MsgAcprHint
  | MsgUnableToSet u32 u32
  | MsgUnableToRead u32
  | MsgUnableToDebug
  | MsgUnableToReset
  | MsgUnableToTurnOnTracing
  | MsgExpectClock u32
  | MsgNotConfigured
  | MsgNotConfiguredOption
  | MsgNoStlink
  | MsgNoDevice
  | MsgNoTraceSupport
  | MsgNoSwoSupport
  | MsgUnableToEnableTrace
  | MsgUnableToRun
  | MsgReadingTrace
  | MsgSetting string

datatype event =
    Putchar u8
  | Fflush
  | Log log_level message
  | Usage
  | PrintVersion
  | Usleep nat
  | OpenUsb "u8 list option"
  | ForceDebug
  | Reset
  | WriteMem32 u32 u32
  | ReadMem32 u32
  | TraceEnable
  | Run
  | TraceRead
  | TraceDisable
  | Close

section \<open>The packet decoder (trace.c, lines 334-404)\<close>

text \<open>
  \<open>trace->unknown_opcodes[i] & (1 << k)\<close> and \<open>trace->unknown_opcodes[i] |= (1 << k)\<close>,
  with the bounds of the array checked.
\<close>

definition opcode_bit :: "u8 list \<Rightarrow> nat \<Rightarrow> nat \<Rightarrow> u8 option" where
  "opcode_bit arr i k = (if i < length arr then Some (arr ! i AND push_bit k 1) else None)"

definition opcode_set :: "u8 list \<Rightarrow> nat \<Rightarrow> nat \<Rightarrow> u8 list option" where
  "opcode_set arr i k =
     (if i < length arr then Some (arr[i := arr ! i OR push_bit k 1]) else None)"

text \<open>
  Lines 350-366 of \<open>UpdateTraceIdle\<close>: what follows the source block. \<open>ev\<close> is what the
  source block has logged.
\<close>

definition UpdateTraceIdle_rest ::
  "st_trace_t \<Rightarrow> event list \<Rightarrow> u8 \<Rightarrow> (trace_state \<times> st_trace_t \<times> event list) option" where
  "UpdateTraceIdle_rest trace ev c =
     (let next = (if TRACE_OP_GET_CONTINUATION c \<noteq> 0 then TRACE_STATE_SKIP_FRAME
                  else TRACE_STATE_IDLE) in
      if TRACE_OP_IS_LOCAL_TIME c \<or> TRACE_OP_IS_GLOBAL_TIME c then
        Some (next, trace\<lparr>count_time_packets := count_time_packets trace + 1\<rparr>, ev)
      else if TRACE_OP_IS_EXTENSION c then
        Some (next, trace, ev)
      else
        (let trace1 = (if TRACE_OP_IS_OVERFLOW c
                       then trace\<lparr>count_overflow := count_overflow trace + 1\<rparr>
                       else trace);
             i = unat c div 8;
             k = unat c mod 8
         in case opcode_bit (unknown_opcodes trace1) i k of
              None \<Rightarrow> None
            | Some b \<Rightarrow>
               (case opcode_set (unknown_opcodes trace1) i k of
                  None \<Rightarrow> None
                | Some arr \<Rightarrow>
                    Some (next,
                          trace1\<lparr>unknown_opcodes := arr,
                                 count_error := count_error trace1 + 1\<rparr>,
                          ev @ (if b = 0 then [Log UWARN (MsgUnknownOpcode c)] else [])))))"

text \<open>
  \<open>UpdateTraceIdle\<close>. The address of a software source is \<open>c >> 3\<close>, at most 31, and its
  bit in \<open>unknown_sources\<close> is \<open>1 << addr\<close>; at address 31 that shift reaches the sign
  bit of \<open>int\<close>, and the model takes the two's complement value, bit 31.
\<close>

definition UpdateTraceIdle ::
  "st_trace_t \<Rightarrow> u8 \<Rightarrow> (trace_state \<times> st_trace_t \<times> event list) option" where
  "UpdateTraceIdle trace c =
     (if TRACE_OP_IS_TARGET_SOURCE c then Some (TRACE_STATE_TARGET_SOURCE, trace, [])
      else if TRACE_OP_IS_SOURCE c then
        (let size = TRACE_OP_GET_SOURCE_SIZE c;
             addr = TRACE_OP_GET_SW_SOURCE_ADDR c;
             mask = (push_bit (unat addr) 1 :: u32);
             ev = (if TRACE_OP_IS_SW_SOURCE c \<and> unknown_sources trace AND mask = 0
                   then [Log UWARN (MsgUnsupportedSource addr size)] else []);
             trace1 = (if TRACE_OP_IS_SW_SOURCE c
                       then trace\<lparr>unknown_sources := unknown_sources trace OR mask\<rparr>
                       else trace)
         in if size = 1 then Some (TRACE_STATE_SKIP_1, trace1, ev)
            else if size = 2 then Some (TRACE_STATE_SKIP_2, trace1, ev)
            else if size = 3 then Some (TRACE_STATE_SKIP_4, trace1, ev)
            else UpdateTraceIdle_rest trace1 ev c)
      else UpdateTraceIdle_rest trace [] c)"

text \<open>
  \<open>UpdateTrace\<close>. The \<open>default\<close> branch of the switch answers a value of \<open>trace->state\<close>
  that is none of the seven enumerators; \<open>state\<close> only ever holds an enumerator (zero
  at line 530, a return value of this function afterwards), so the datatype has no such
  value and the branch has no counterpart.
\<close>

definition UpdateTrace ::
  "st_trace_t \<Rightarrow> u8 \<Rightarrow> (trace_state \<times> st_trace_t \<times> event list) option" where
  "UpdateTrace trace0 c =
     (let trace = trace0\<lparr>count_raw_bytes := count_raw_bytes trace0 + 1\<rparr> in
      case state trace of
        TRACE_STATE_IDLE \<Rightarrow> UpdateTraceIdle trace c
      | TRACE_STATE_TARGET_SOURCE \<Rightarrow>
          Some (TRACE_STATE_IDLE,
                trace\<lparr>count_target_data := count_target_data trace + 1\<rparr>,
                Putchar c # (if c = 0x0a then [Fflush] else []))
      | TRACE_STATE_SKIP_FRAME \<Rightarrow>
          Some (if TRACE_OP_GET_CONTINUATION c \<noteq> 0 then TRACE_STATE_SKIP_FRAME
                else TRACE_STATE_IDLE, trace, [])
      | TRACE_STATE_SKIP_4 \<Rightarrow> Some (TRACE_STATE_SKIP_3, trace, [])
      | TRACE_STATE_SKIP_3 \<Rightarrow> Some (TRACE_STATE_SKIP_2, trace, [])
      | TRACE_STATE_SKIP_2 \<Rightarrow> Some (TRACE_STATE_SKIP_1, trace, [])
      | TRACE_STATE_SKIP_1 \<Rightarrow> Some (TRACE_STATE_IDLE, trace, []))"

text \<open>
  The loop of \<open>ReadTrace\<close> (lines 420-422): \<open>trace->state = UpdateTrace(trace, buffer[i])\<close>
  for each byte in turn. The events of the bytes are concatenated.
\<close>

fun feed :: "st_trace_t \<Rightarrow> u8 list \<Rightarrow> (st_trace_t \<times> event list) option" where
  "feed trace [] = Some (trace, [])"
| "feed trace (c # cs) =
     (case UpdateTrace trace c of
        None \<Rightarrow> None
      | Some (s, trace1, ev1) \<Rightarrow>
          (case feed (trace1\<lparr>state := s\<rparr>) cs of
             None \<Rightarrow> None
           | Some (trace2, ev2) \<Rightarrow> Some (trace2, ev1 @ ev2)))"

text \<open>The bytes written to the primary output stream, in order.\<close>

fun stdout_bytes :: "event list \<Rightarrow> u8 list" where
  "stdout_bytes [] = []"
| "stdout_bytes (Putchar c # es) = c # stdout_bytes es"
| "stdout_bytes (_ # es) = stdout_bytes es"

section \<open>Reading a chunk of trace bytes (trace.c, lines 406-425)\<close>

text \<open>
  \<open>ReadTrace\<close>. The driver call \<open>stlink_trace_read\<close> is not part of this file: its
  return value \<open>len\<close> and the contents \<open>buffer\<close> it leaves in the local array are inputs.
  The loop reads \<open>buffer[0 .. len - 1]\<close>; a read past the array is \<open>None\<close>.
\<close>

definition ReadTrace ::
  "int \<Rightarrow> u8 list \<Rightarrow> st_trace_t \<Rightarrow> (bool \<times> st_trace_t \<times> event list) option" where
  "ReadTrace len buffer trace =
     (if len < 0 then Some (False, trace, [TraceRead, Log UERROR (MsgErrorReadingTrace len)])
      else if len = 0 then Some (True, trace, [TraceRead, Usleep 1000])
      else if nat len \<le> length buffer then
        (case feed trace (take (nat len) buffer) of
           None \<Rightarrow> None
         | Some (trace1, ev) \<Rightarrow> Some (True, trace1, TraceRead # ev))
      else None)"

section \<open>The configuration check (trace.c, lines 427-455)\<close>

text \<open>The two loops of the report, over the opcodes 0 to 255 and the sources 0 to 31.\<close>

fun seen_opcode_lines :: "u8 list \<Rightarrow> nat list \<Rightarrow> event list option" where
  "seen_opcode_lines arr [] = Some []"
| "seen_opcode_lines arr (i # rest) =
     (case opcode_bit arr (i div 8) (i mod 8) of
        None \<Rightarrow> None
      | Some b \<Rightarrow>
          (case seen_opcode_lines arr rest of
             None \<Rightarrow> None
           | Some es \<Rightarrow> Some ((if b \<noteq> 0 then [Log UWARN (MsgSeenOpcode i)] else []) @ es)))"

definition seen_source_lines :: "u32 \<Rightarrow> event list" where
  "seen_source_lines srcs =
     concat (map (\<lambda>i. if srcs AND push_bit i 1 \<noteq> 0 then [Log UWARN (MsgSeenSource i)] else [])
                 [0..<32])"

text \<open>Lines 437-453: the diagnostic report.\<close>

definition diagnostic_report :: "st_trace_t \<Rightarrow> event list option" where
  "diagnostic_report trace =
     (case seen_opcode_lines (unknown_opcodes trace) [0..<256] of
        None \<Rightarrow> None
      | Some ops \<Rightarrow>
          Some ([Log UWARN MsgStars,
                 Log UWARN MsgNotRetrieving,
                 Log UWARN (MsgRawBytes (count_raw_bytes trace)),
                 Log UWARN (MsgTargetData (count_target_data trace)),
                 Log UWARN (MsgTimePackets (count_time_packets trace)),
                 Log UWARN (MsgOverflowCount (count_overflow trace)),
                 Log UWARN (MsgErrors (count_error trace))]
                @ ops @ seen_source_lines (unknown_sources trace)
                @ [Log UWARN MsgCheckClock, Log UWARN MsgCheckClockInit,
                   Log UWARN MsgAcprHint, Log UWARN MsgStars]))"

text \<open>
  \<open>CheckForConfigurationError\<close>. \<open>now\<close> is what \<open>time(NULL)\<close> returns. The difference
  \<open>time(NULL) - trace->start_time\<close> is converted to \<open>uint32_t\<close>. Besides the new state
  and the log, the result says which way the function went: \<open>CheckSkipped\<close> for the
  \<open>return\<close> of line 430, \<open>CheckRan\<close> when it went on to line 432 and evaluated the
  counters.
\<close>

datatype check_outcome = CheckSkipped | CheckRan

definition elapsed_time_s :: "int \<Rightarrow> st_trace_t \<Rightarrow> u32" where
  "elapsed_time_s now trace = word_of_int (now - start_time trace)"

definition CheckForConfigurationError ::
  "int \<Rightarrow> st_trace_t \<Rightarrow> (check_outcome \<times> st_trace_t \<times> event list) option" where
  "CheckForConfigurationError now trace =
     (if configuration_checked trace \<or> elapsed_time_s now trace < 10 then
        Some (CheckSkipped, trace, [])
      else
        (let trace1 = trace\<lparr>configuration_checked := True\<rparr> in
         if count_raw_bytes trace1 < 100 \<or> count_error trace1 > 1
            \<or> count_time_packets trace1 < 10
         then (case diagnostic_report trace1 of
                 None \<Rightarrow> None
               | Some ev \<Rightarrow> Some (CheckRan, trace1, ev))
         else Some (CheckRan, trace1, [])))"

section \<open>The poll loop (trace.c, lines 532-534)\<close>

text \<open>
  \<open>while (!g_abort_trace && ReadTrace(stlink, &trace)) CheckForConfigurationError(&trace);\<close>
  What one iteration meets from outside is a \<open>poll\<close>: the value of \<open>g_abort_trace\<close> when
  the condition is evaluated, what \<open>stlink_trace_read\<close> returns, and the time at the
  check. The loop runs over a list of polls; the first component of the result says
  whether the loop has ended within the list. The last component lists the outcomes of
  the calls of \<open>CheckForConfigurationError\<close>, in order.
\<close>

record poll =
  abort_trace :: bool
  read_len :: int
  read_buffer :: "u8 list"
  time_now :: int

fun poll_loop ::
  "st_trace_t \<Rightarrow> poll list \<Rightarrow> (bool \<times> st_trace_t \<times> event list \<times> check_outcome list) option" where
  "poll_loop trace [] = Some (False, trace, [], [])"
| "poll_loop trace (p # ps) =
     (if abort_trace p then Some (True, trace, [], [])
      else
        (case ReadTrace (read_len p) (read_buffer p) trace of
           None \<Rightarrow> None
         | Some (ok, trace1, e1) \<Rightarrow>
             if \<not> ok then Some (True, trace1, e1, [])
             else
               (case CheckForConfigurationError (time_now p) trace1 of
                  None \<Rightarrow> None
                | Some (oc, trace2, e2) \<Rightarrow>
                    (case poll_loop trace2 ps of
                       None \<Rightarrow> None
                     | Some (fin, trace3, e3, ocs) \<Rightarrow>
                         Some (fin, trace3, e1 @ e2 @ e3, oc # ocs)))))"

section \<open>Serial number text to binary (trace.c, lines 235-242)\<close>

text \<open>
  The text is a C string: the memory holds its characters and then the terminator.
  \<open>c_string\<close> gives the characters before the first NUL, which is what the C library
  takes the string to be, and \<open>strlen\<close> their number.
\<close>

definition c_string :: "string \<Rightarrow> string" where
  "c_string text = takeWhile (\<lambda>ch. ch \<noteq> CHR 0x00) text"

definition strlen :: "string \<Rightarrow> nat" where
  "strlen text = length (c_string text)"

text \<open>
  \<open>char buffer[3] = { 0 }; memcpy(buffer, text + n, 2);\<close> The two bytes read are at
  \<open>n\<close> and \<open>n + 1\<close> of \<open>text @ [NUL]\<close>; a read past the terminator is \<open>None\<close>. The result
  is \<open>buffer\<close> as the C string \<open>strtol\<close> sees it: its characters before the first NUL.
\<close>

definition copy_pair :: "string \<Rightarrow> nat \<Rightarrow> string option" where
  "copy_pair text n =
     (let mem = text @ [CHR 0x00] in
      if n + 1 < length mem
      then Some (c_string [mem ! n, mem ! (n + 1)])
      else None)"

text \<open>
  The loop of \<open>ConvertSerialNumberTextToBinary\<close>. \<open>strtol16\<close> stands for the C library's
  \<open>strtol(_, NULL, 16)\<close> and \<open>max_size\<close> for \<open>STLINK_SERIAL_MAX_SIZE\<close> of \<open>stlink.h\<close>,
  neither of which this file defines. \<open>n\<close> is a \<open>uint32_t\<close> and wraps; \<open>len\<close> is the
  \<open>size_t length\<close>. A store outside \<open>binary_out\<close> is \<open>None\<close>. The result is the buffer
  and the number of bytes stored.
\<close>

function ConvertSerialNumberTextToBinary_loop ::
  "(string \<Rightarrow> int) \<Rightarrow> nat \<Rightarrow> string \<Rightarrow> u32 \<Rightarrow> nat \<Rightarrow> u8 list \<Rightarrow> (u8 list \<times> nat) option" where
  "ConvertSerialNumberTextToBinary_loop strtol16 max_size text n len binary_out =
     (if unat n < strlen text \<and> len < max_size then
        (case copy_pair text (unat n) of
           None \<Rightarrow> None
         | Some buffer \<Rightarrow>
             if len < length binary_out
             then ConvertSerialNumberTextToBinary_loop strtol16 max_size text (n + 2) (len + 1)
                    (binary_out[len := word_of_int (strtol16 buffer)])
             else None)
      else Some (binary_out, len))"
  by pat_completeness auto
termination
  by (relation "measure (\<lambda>(strtol16, max_size, text, n, len, binary_out). max_size - len)") auto

declare ConvertSerialNumberTextToBinary_loop.simps [simp del]

definition ConvertSerialNumberTextToBinary ::
  "(string \<Rightarrow> int) \<Rightarrow> nat \<Rightarrow> string \<Rightarrow> u8 list \<Rightarrow> (u8 list \<times> nat) option" where
  "ConvertSerialNumberTextToBinary strtol16 max_size text binary_out =
     ConvertSerialNumberTextToBinary_loop strtol16 max_size text 0 0 binary_out"

text \<open>
  A stand-in for \<open>strtol(_, NULL, 16)\<close> in examples: the value of the longest prefix of
  hexadecimal digits. It agrees with \<open>strtol\<close> on strings of at most two characters that
  start with no white space, sign or \<open>0x\<close>.
\<close>

definition hex_digit :: "char \<Rightarrow> int option" where
  "hex_digit ch =
     (let k = (of_char ch :: nat) in
      if 48 \<le> k \<and> k \<le> 57 then Some (int k - 48)
      else if 97 \<le> k \<and> k \<le> 102 then Some (int k - 87)
      else if 65 \<le> k \<and> k \<le> 70 then Some (int k - 55)
      else None)"

fun hex_prefix_value :: "int \<Rightarrow> string \<Rightarrow> int" where
  "hex_prefix_value acc [] = acc"
| "hex_prefix_value acc (ch # rest) =
     (case hex_digit ch of None \<Rightarrow> acc | Some d \<Rightarrow> hex_prefix_value (16 * acc + d) rest)"

section \<open>Settings, the probe and the constants of stlink.h\<close>

text \<open>\<open>st_settings_t\<close> (lines 104-112); a C \<open>int\<close> is an \<open>int\<close> here, and where the code
  computes with one the reduction to 32 bits is written out.\<close>

record st_settings_t =
  show_help :: bool
  show_version :: bool
  logging_level :: int
  core_frequency_mhz :: int
  reset_board :: bool
  force :: bool
  serial_number :: "string option"

text \<open>
  The constants this file takes from \<open>stlink.h\<close> and the headers it includes. They are
  not defined in \<open>trace.c\<close>, so the model takes them as a parameter.
\<close>

record stlink_h =
  STLINK_TRACE_FREQUENCY :: int
  STLINK_SERIAL_MAX_SIZE :: nat
  STLINK_CHIPID_UNKNOWN :: u32
  STLINK_F_HAS_TRACE :: u32
  CHIP_F_HAS_SWO_TRACING :: u32
  DCB_DHCSR :: u32
  DBGKEY :: u32
  C_DEBUGEN :: u32
  C_HALT :: u32
  DCB_DEMCR :: u32
  DEMCR_TRCENA :: u32

text \<open>The fields of \<open>stlink_t\<close> that \<open>main\<close> reads.\<close>

record stlink_t =
  chip_id :: u32
  version_flags :: u32
  chip_flags :: u32

text \<open>
  What the probe driver answers. Each driver function is called at most once in a run,
  but for \<open>stlink_write_mem32\<close>, whose return code is given per call, counted from 0.
  \<open>read_value\<close> is \<open>read_uint32(stlink->q_buf, 0)\<close> after the one call of
  \<open>stlink_read_mem32\<close>. A return code other than 0 is a failure.
\<close>

record probe_env =
  open_usb :: "stlink_t option"
  force_debug_rc :: int
  reset_rc :: int
  trace_enable_rc :: int
  run_rc :: int
  write_mem32_rc :: "nat \<Rightarrow> int"
  read_mem32_rc :: int
  read_value :: u32

section \<open>Registers and fields (trace.c, lines 43-97)\<close>

definition ITM_TER :: u32 where "ITM_TER = 0xE0000E00"
definition ITM_TPR :: u32 where "ITM_TPR = 0xE0000E40"
definition ITM_TCR :: u32 where "ITM_TCR = 0xE0000E80"
definition ITM_TCC :: u32 where "ITM_TCC = 0xE0000E90"
definition ITM_LAR :: u32 where "ITM_LAR = 0xE0000FB0"

definition ITM_TER_PORTS_ALL :: u32 where "ITM_TER_PORTS_ALL = 0xFFFFFFFF"
definition ITM_TPR_PORTS_ALL :: u32 where "ITM_TPR_PORTS_ALL = 0x0F"
definition ITM_TCR_TRACE_BUS_ID_1 :: u32 where "ITM_TCR_TRACE_BUS_ID_1 = push_bit 16 0x01"
definition ITM_TCR_TS_ENA :: u32 where "ITM_TCR_TS_ENA = push_bit 1 1"
definition ITM_TCR_ITM_ENA :: u32 where "ITM_TCR_ITM_ENA = push_bit 0 1"
definition ITM_LAR_KEY :: u32 where "ITM_LAR_KEY = 0xC5ACCE55"

definition DWT_CTRL :: u32 where "DWT_CTRL = 0xE0001000"
definition DWT_FUNCTION0 :: u32 where "DWT_FUNCTION0 = 0xE0001028"
definition DWT_FUNCTION1 :: u32 where "DWT_FUNCTION1 = 0xE0001038"
definition DWT_FUNCTION2 :: u32 where "DWT_FUNCTION2 = 0xE0001048"
definition DWT_FUNCTION3 :: u32 where "DWT_FUNCTION3 = 0xE0001058"

definition DWT_CTRL_NUM_COMP :: u32 where "DWT_CTRL_NUM_COMP = push_bit 28 1"
definition DWT_CTRL_CYC_TAP :: u32 where "DWT_CTRL_CYC_TAP = push_bit 9 1"
definition DWT_CTRL_POST_INIT :: u32 where "DWT_CTRL_POST_INIT = push_bit 5 1"
definition DWT_CTRL_POST_PRESET :: u32 where "DWT_CTRL_POST_PRESET = push_bit 1 1"
definition DWT_CTRL_CYCCNT_ENA :: u32 where "DWT_CTRL_CYCCNT_ENA = push_bit 0 1"

definition TPI_CSPSR :: u32 where "TPI_CSPSR = 0xE0040004"
definition TPI_ACPR :: u32 where "TPI_ACPR = 0xE0040010"
definition TPI_SPPR :: u32 where "TPI_SPPR = 0xE00400F0"
definition TPI_FFCR :: u32 where "TPI_FFCR = 0xE0040304"

definition TPI_TPI_CSPSR_PORT_SIZE_1 :: u32 where "TPI_TPI_CSPSR_PORT_SIZE_1 = push_bit 0 0x01"
definition TPI_SPPR_SWO_NRZ :: u32 where "TPI_SPPR_SWO_NRZ = push_bit 0 0x02"
definition TPI_FFCR_TRIG_IN :: u32 where "TPI_FFCR_TRIG_IN = push_bit 8 0x01"

definition FP_CTRL :: u32 where "FP_CTRL = 0xE0002000"
definition DBGMCU_CR :: u32 where "DBGMCU_CR = 0xE0042004"

definition FP_CTRL_KEY :: u32 where "FP_CTRL_KEY = push_bit 1 1"
definition DBGMCU_CR_DBG_SLEEP :: u32 where "DBGMCU_CR_DBG_SLEEP = push_bit 0 1"
definition DBGMCU_CR_DBG_STOP :: u32 where "DBGMCU_CR_DBG_STOP = push_bit 1 1"
definition DBGMCU_CR_DBG_STANDBY :: u32 where "DBGMCU_CR_DBG_STANDBY = push_bit 2 1"
definition DBGMCU_CR_TRACE_IOEN :: u32 where "DBGMCU_CR_TRACE_IOEN = push_bit 5 1"
definition DBGMCU_CR_TRACE_MODE_ASYNC :: u32 where "DBGMCU_CR_TRACE_MODE_ASYNC = push_bit 6 0x00"

section \<open>Enabling the trace (trace.c, lines 256-332)\<close>

text \<open>
  \<open>Write32\<close> and \<open>Read32\<close>: the driver call, and an error line when it fails. \<open>k\<close> is the
  number of calls of \<open>stlink_write_mem32\<close> made before this one.
\<close>

definition Write32 :: "probe_env \<Rightarrow> nat \<Rightarrow> u32 \<Rightarrow> u32 \<Rightarrow> event list" where
  "Write32 env k address data =
     WriteMem32 address data #
     (if write_mem32_rc env k \<noteq> 0 then [Log UERROR (MsgUnableToSet address data)] else [])"

definition Read32 :: "probe_env \<Rightarrow> u32 \<Rightarrow> u32 \<times> event list" where
  "Read32 env address =
     (read_value env,
      ReadMem32 address #
      (if read_mem32_rc env \<noteq> 0 then [Log UERROR (MsgUnableToRead address)] else []))"

text \<open>A run of consecutive \<open>Write32\<close> calls, the first being call number \<open>k\<close>.\<close>

fun Write32_run :: "probe_env \<Rightarrow> nat \<Rightarrow> (u32 \<times> u32) list \<Rightarrow> event list" where
  "Write32_run env k [] = []"
| "Write32_run env k ((address, data) # rest) =
     Write32 env k address data @ Write32_run env (Suc k) rest"

text \<open>
  Line 305: \<open>settings->core_frequency_mhz * 1000000 / STLINK_TRACE_FREQUENCY - 1\<close>,
  computed in \<open>int\<close> and stored in a \<open>uint32_t\<close>. The product is reduced to 32 bits in
  two's complement (C leaves a product outside \<open>int\<close> undefined); \<open>sdiv\<close> is C's
  division, which truncates.
\<close>

definition acpr_prescaler :: "stlink_h \<Rightarrow> int \<Rightarrow> u32" where
  "acpr_prescaler hdr mhz =
     word_of_int (signed_take_bit 31 (mhz * 1000000) sdiv STLINK_TRACE_FREQUENCY hdr - 1)"

text \<open>
  Lines 310-311, in \<open>uint32_t\<close>: \<open>(prescaler + 1) * STLINK_TRACE_FREQUENCY\<close>, then
  \<open>(system_clock_speed + 500000) / 1000000\<close>.
\<close>

definition system_clock_speed_mhz :: "stlink_h \<Rightarrow> u32 \<Rightarrow> u32" where
  "system_clock_speed_mhz hdr prescaler =
     (let system_clock_speed = (prescaler + 1) * word_of_int (STLINK_TRACE_FREQUENCY hdr)
      in (system_clock_speed + 500000) div 1000000)"

definition EnableTrace :: "stlink_h \<Rightarrow> probe_env \<Rightarrow> st_settings_t \<Rightarrow> bool \<times> event list" where
  "EnableTrace hdr env settings =
     (let debug_failed = (force_debug_rc env \<noteq> 0);
          e1 = ForceDebug # (if debug_failed then [Log UERROR MsgUnableToDebug] else [])
      in
      if debug_failed \<and> \<not> force settings then (False, e1)
      else
      let reset_failed = (reset_board settings \<and> reset_rc env \<noteq> 0);
          e2 = e1 @ (if reset_board settings then [Reset] else [])
                  @ (if reset_failed then [Log UERROR MsgUnableToReset] else [])
      in
      if reset_failed \<and> \<not> force settings then (False, e2)
      else
      let e3 = e2 @ Write32_run env 0
                 [(DCB_DHCSR hdr, DBGKEY hdr OR C_DEBUGEN hdr OR C_HALT hdr),
                  (DCB_DEMCR hdr, DEMCR_TRCENA hdr),
                  (FP_CTRL, FP_CTRL_KEY),
                  (DWT_FUNCTION0, 0),
                  (DWT_FUNCTION1, 0),
                  (DWT_FUNCTION2, 0),
                  (DWT_FUNCTION3, 0),
                  (DWT_CTRL, 0),
                  (DBGMCU_CR, DBGMCU_CR_DBG_SLEEP OR DBGMCU_CR_DBG_STOP OR
                              DBGMCU_CR_DBG_STANDBY OR DBGMCU_CR_TRACE_IOEN OR
                              DBGMCU_CR_TRACE_MODE_ASYNC)];
          enable_failed = (trace_enable_rc env \<noteq> 0);
          e4 = e3 @ TraceEnable #
                 (if enable_failed then [Log UERROR MsgUnableToTurnOnTracing] else [])
      in
      if enable_failed \<and> \<not> force settings then (False, e4)
      else
      let acpr = (if core_frequency_mhz settings \<noteq> 0
                  then [(TPI_ACPR, acpr_prescaler hdr (core_frequency_mhz settings))]
                  else []);
          e5 = e4 @ Write32_run env 9 ((TPI_CSPSR, TPI_TPI_CSPSR_PORT_SIZE_1) # acpr);
          (prescaler, er) = Read32 env TPI_ACPR;
          e6 = e5 @ er @
                 (if prescaler \<noteq> 0
                  then [Log UINFO (MsgExpectClock (system_clock_speed_mhz hdr prescaler))]
                  else [Log UWARN MsgNotConfigured, Log UWARN MsgNotConfiguredOption,
                        Log UWARN MsgAcprHint]);
          e7 = e6 @ Write32_run env (10 + length acpr)
                 [(TPI_FFCR, TPI_FFCR_TRIG_IN),
                  (TPI_SPPR, TPI_SPPR_SWO_NRZ),
                  (ITM_LAR, ITM_LAR_KEY),
                  (ITM_TCC, 0x00000400),
                  (ITM_TCR, ITM_TCR_TRACE_BUS_ID_1 OR ITM_TCR_TS_ENA OR ITM_TCR_ITM_ENA),
                  (ITM_TER, ITM_TER_PORTS_ALL),
                  (ITM_TPR, ITM_TPR_PORTS_ALL),
                  (DWT_CTRL, (4 * DWT_CTRL_NUM_COMP) OR DWT_CTRL_CYC_TAP OR
                             (0xF * DWT_CTRL_POST_INIT) OR (0xF * DWT_CTRL_POST_PRESET) OR
                             DWT_CTRL_CYCCNT_ENA),
                  (DCB_DEMCR hdr, DEMCR_TRCENA hdr)]
      in (True, e7))"

section \<open>Connecting and the session (trace.c, lines 244-254 and 457-540)\<close>

definition APP_RESULT_SUCCESS :: int where "APP_RESULT_SUCCESS = 0"
definition APP_RESULT_INVALID_PARAMS :: int where "APP_RESULT_INVALID_PARAMS = 1"
definition APP_RESULT_STLINK_NOT_FOUND :: int where "APP_RESULT_STLINK_NOT_FOUND = 2"
definition APP_RESULT_STLINK_MISSING_DEVICE :: int where "APP_RESULT_STLINK_MISSING_DEVICE = 3"
definition APP_RESULT_STLINK_UNSUPPORTED_DEVICE :: int where
  "APP_RESULT_STLINK_UNSUPPORTED_DEVICE = 4"
definition APP_RESULT_STLINK_UNSUPPORTED_LINK :: int where
  "APP_RESULT_STLINK_UNSUPPORTED_LINK = 5"
definition APP_RESULT_STLINK_STATE_ERROR :: int where "APP_RESULT_STLINK_STATE_ERROR = 6"

text \<open>
  \<open>StLinkConnect\<close>: with a serial number, its binary form goes to \<open>stlink_open_usb\<close>;
  the local array starts as zeros.
\<close>

definition StLinkConnect ::
  "stlink_h \<Rightarrow> (string \<Rightarrow> int) \<Rightarrow> probe_env \<Rightarrow> st_settings_t
     \<Rightarrow> (stlink_t option \<times> event list) option" where
  "StLinkConnect hdr strtol16 env settings =
     (case serial_number settings of
        Some text \<Rightarrow>
          (case ConvertSerialNumberTextToBinary strtol16 (STLINK_SERIAL_MAX_SIZE hdr) text
                  (replicate (STLINK_SERIAL_MAX_SIZE hdr) 0) of
             None \<Rightarrow> None
           | Some (binary_serial_number, n) \<Rightarrow>
               Some (open_usb env, [OpenUsb (Some binary_serial_number)]))
      | None \<Rightarrow> Some (open_usb env, [OpenUsb None]))"

text \<open>
  Lines 496-539 of \<open>main\<close>: from the open probe to the exit. The result is the exit code,
  or \<open>None\<close> while the poll loop has not ended within the polls given, and the events.
  \<open>start\<close> is \<open>time(NULL)\<close> at line 531.
\<close>

definition main_session ::
  "stlink_h \<Rightarrow> probe_env \<Rightarrow> st_settings_t \<Rightarrow> stlink_t \<Rightarrow> int \<Rightarrow> poll list
     \<Rightarrow> (int option \<times> event list) option" where
  "main_session hdr env settings stlink start polls =
     (let no_device = (chip_id stlink = STLINK_CHIPID_UNKNOWN hdr);
          e1 = (if no_device then [Log UERROR MsgNoDevice] else [])
      in
      if no_device \<and> \<not> force settings then Some (Some APP_RESULT_STLINK_MISSING_DEVICE, e1)
      else
      let no_trace = (version_flags stlink AND STLINK_F_HAS_TRACE hdr = 0);
          e2 = e1 @ (if no_trace then [Log UERROR MsgNoTraceSupport] else [])
      in
      if no_trace \<and> \<not> force settings then Some (Some APP_RESULT_STLINK_UNSUPPORTED_LINK, e2)
      else
      let no_swo = (chip_flags stlink AND CHIP_F_HAS_SWO_TRACING hdr = 0);
          e3 = e2 @ (if no_swo then [Log UERROR MsgNoSwoSupport] else [])
      in
      if no_swo \<and> \<not> force settings then Some (Some APP_RESULT_STLINK_UNSUPPORTED_DEVICE, e3)
      else
      let (enabled, ee) = EnableTrace hdr env settings;
          e4 = e3 @ ee @ (if \<not> enabled then [Log UERROR MsgUnableToEnableTrace] else [])
      in
      if \<not> enabled \<and> \<not> force settings then Some (Some APP_RESULT_STLINK_STATE_ERROR, e4)
      else
      let run_failed = (run_rc env \<noteq> 0);
          e5 = e4 @ Run # (if run_failed then [Log UERROR MsgUnableToRun] else [])
      in
      if run_failed \<and> \<not> force settings then Some (Some APP_RESULT_STLINK_STATE_ERROR, e5)
      else
        (case poll_loop (trace_zero\<lparr>start_time := start\<rparr>) polls of
           None \<Rightarrow> None
         | Some (ended, trace, el, ocs) \<Rightarrow>
             if ended
             then Some (Some APP_RESULT_SUCCESS,
                        e5 @ Log UINFO MsgReadingTrace # el @ [TraceDisable, Close])
             else Some (None, e5 @ Log UINFO MsgReadingTrace # el)))"

text \<open>
  \<open>main\<close>. \<open>parse_options\<close> rests on \<open>getopt_long\<close>; its result is an input here:
  \<open>None\<close> when it returns false, the settings otherwise. The four \<open>signal\<close> calls and
  the store to \<open>stlink->verbose\<close> leave no event.
\<close>

definition main ::
  "stlink_h \<Rightarrow> (string \<Rightarrow> int) \<Rightarrow> probe_env \<Rightarrow> st_settings_t option \<Rightarrow> int \<Rightarrow> poll list
     \<Rightarrow> (int option \<times> event list) option" where
  "main hdr strtol16 env parsed start polls =
     (case parsed of
        None \<Rightarrow> Some (Some APP_RESULT_INVALID_PARAMS, [Usage])
      | Some settings \<Rightarrow>
          (let e0 = map (\<lambda>name. Log UDEBUG (MsgSetting name))
                      [''show_help'', ''show_version'', ''logging_level'', ''core_frequency'',
                       ''reset_board'', ''force'', ''serial_number'']
           in
           if show_help settings then Some (Some APP_RESULT_SUCCESS, e0 @ [Usage])
           else if show_version settings then Some (Some APP_RESULT_SUCCESS, e0 @ [PrintVersion])
           else
             (case StLinkConnect hdr strtol16 env settings of
                None \<Rightarrow> None
              | Some (None, ec) \<Rightarrow>
                  Some (Some APP_RESULT_STLINK_NOT_FOUND, e0 @ ec @ [Log UERROR MsgNoStlink])
              | Some (Some stlink, ec) \<Rightarrow>
                  (case main_session hdr env settings stlink start polls of
                     None \<Rightarrow> None
                   | Some (code, es) \<Rightarrow> Some (code, e0 @ ec @ es)))))"

section \<open>Notions for stating the properties\<close>

text \<open>
  Membership in the two seen sets, as the code tests it: bit \<open>c % 8\<close> of byte \<open>c / 8\<close>
  of \<open>unknown_opcodes\<close>, and bit \<open>addr\<close> of \<open>unknown_sources\<close>.
\<close>

definition opcode_seen :: "st_trace_t \<Rightarrow> u8 \<Rightarrow> bool" where
  "opcode_seen trace c = bit (unknown_opcodes trace ! (unat c div 8)) (unat c mod 8)"

definition source_seen :: "st_trace_t \<Rightarrow> u8 \<Rightarrow> bool" where
  "source_seen trace a = bit (unknown_sources trace) (unat a)"

text \<open>
  How often a log holds the warning for the unknown opcode \<open>c\<close>, and how often a warning
  for the unsupported source address \<open>a\<close>, whatever the size logged with it.
\<close>

fun is_source_warning :: "u8 \<Rightarrow> event \<Rightarrow> bool" where
  "is_source_warning a (Log UWARN (MsgUnsupportedSource a' sz)) = (a = a')"
| "is_source_warning a _ = False"

definition opcode_warnings :: "u8 \<Rightarrow> event list \<Rightarrow> nat" where
  "opcode_warnings c ev = count_list ev (Log UWARN (MsgUnknownOpcode c))"

definition source_warnings :: "u8 \<Rightarrow> event list \<Rightarrow> nat" where
  "source_warnings a ev = length (filter (is_source_warning a) ev)"

text \<open>
  The relation between the seen sets before and after some calls and the warnings logged
  in between: each value has as many warnings as it went from unseen to seen.
\<close>

definition seen_step :: "st_trace_t \<Rightarrow> st_trace_t \<Rightarrow> event list \<Rightarrow> bool" where
  "seen_step trace trace' new =
     ((\<forall>c. opcode_warnings c new + (if opcode_seen trace c then 1 else 0)
             = (if opcode_seen trace' c then 1 else 0))
      \<and> (\<forall>a. source_warnings a new + (if source_seen trace a then 1 else 0)
             = (if source_seen trace' a then 1 else 0)))"

text \<open>
  A stream of source packets with one payload byte each, all with the same header byte,
  and what the decoder writes for the payloads of such a stream when they are target
  output: each byte, and a flush after a line feed.
\<close>

fun source_packets :: "u8 \<Rightarrow> u8 list \<Rightarrow> u8 list" where
  "source_packets header [] = []"
| "source_packets header (p # ps) = header # p # source_packets header ps"

definition target_output :: "u8 list \<Rightarrow> event list" where
  "target_output ps = concat (map (\<lambda>p. Putchar p # (if p = 0x0a then [Fflush] else [])) ps)"

section \<open>Values for examples\<close>

text \<open>
  A setting to evaluate the program in. The trace frequency is the 2000000 of the hint
  the program prints (lines 316 and 452); the debug registers are those of the
  architecture manual the file cites; the other values are arbitrary. The probe has a
  known chip with both trace flags set, every driver call succeeds, and the prescaler
  reads back as 35.
\<close>

definition example_h :: stlink_h where
  "example_h =
     \<lparr> STLINK_TRACE_FREQUENCY = 2000000, STLINK_SERIAL_MAX_SIZE = 64,
       STLINK_CHIPID_UNKNOWN = 0, STLINK_F_HAS_TRACE = 1, CHIP_F_HAS_SWO_TRACING = 1,
       DCB_DHCSR = 0xE000EDF0, DBGKEY = 0xA05F0000, C_DEBUGEN = 1, C_HALT = 2,
       DCB_DEMCR = 0xE000EDFC, DEMCR_TRCENA = 0x01000000 \<rparr>"

definition example_stlink :: stlink_t where
  "example_stlink = \<lparr> chip_id = 0x413, version_flags = 1, chip_flags = 1 \<rparr>"

definition example_env :: probe_env where
  "example_env =
     \<lparr> open_usb = Some example_stlink, force_debug_rc = 0, reset_rc = 0,
       trace_enable_rc = 0, run_rc = 0, write_mem32_rc = (\<lambda>k. 0), read_mem32_rc = 0,
       read_value = 35 \<rparr>"

definition example_settings :: st_settings_t where
  "example_settings =
     \<lparr> show_help = False, show_version = False, logging_level = 50,
       core_frequency_mhz = 0, reset_board = True, force = False, serial_number = None \<rparr>"

text \<open>Of a run of \<open>main\<close>: the exit code, and whether the events hold the calls of
  \<open>stlink_trace_disable\<close> and of \<open>stlink_close\<close>.\<close>

definition exit_summary ::
  "(int option \<times> event list) option \<Rightarrow> (int option \<times> bool \<times> bool) option" where
  "exit_summary r =
     map_option (\<lambda>(code, ev). (code, TraceDisable \<in> set ev, Close \<in> set ev)) r"

section \<open>The decoder never fails and counts every byte\<close>

lemma u8_index_lt: "unat (c :: u8) div 8 < 32"
proof -
  have "unat c < 2 ^ LENGTH(8)" by (rule unsigned_less)
  then show ?thesis by simp
qed

lemma rest_not_None:
  "length (unknown_opcodes trace) = 32 \<Longrightarrow>
     \<exists>s trace' ev'. UpdateTraceIdle_rest trace ev c = Some (s, trace', ev')"
  using u8_index_lt [of c]
  by (simp add: UpdateTraceIdle_rest_def opcode_bit_def opcode_set_def Let_def)

lemma rest_frame:
  "UpdateTraceIdle_rest trace ev c = Some (s, trace', ev') \<Longrightarrow>
     length (unknown_opcodes trace') = length (unknown_opcodes trace)
     \<and> count_raw_bytes trace' = count_raw_bytes trace
     \<and> count_target_data trace' = count_target_data trace
     \<and> unknown_sources trace' = unknown_sources trace
     \<and> start_time trace' = start_time trace
     \<and> configuration_checked trace' = configuration_checked trace
     \<and> state trace' = state trace"
  by (auto simp: UpdateTraceIdle_rest_def opcode_bit_def opcode_set_def Let_def
      split: if_splits option.splits)

lemma idle_not_None:
  "length (unknown_opcodes trace) = 32 \<Longrightarrow>
     \<exists>s trace' ev'. UpdateTraceIdle trace c = Some (s, trace', ev')"
  by (simp add: UpdateTraceIdle_def Let_def rest_not_None)

lemma idle_frame:
  "UpdateTraceIdle trace c = Some (s, trace', ev') \<Longrightarrow>
     length (unknown_opcodes trace') = length (unknown_opcodes trace)
     \<and> count_raw_bytes trace' = count_raw_bytes trace
     \<and> count_target_data trace' = count_target_data trace
     \<and> start_time trace' = start_time trace
     \<and> configuration_checked trace' = configuration_checked trace
     \<and> state trace' = state trace"
  by (auto simp: UpdateTraceIdle_def Let_def split: if_splits dest!: rest_frame)

lemma UpdateTrace_not_None:
  "length (unknown_opcodes trace) = 32 \<Longrightarrow>
     \<exists>s trace' ev'. UpdateTrace trace c = Some (s, trace', ev')"
  by (cases "state trace") (simp_all add: UpdateTrace_def Let_def idle_not_None)

lemma UpdateTrace_frame:
  "UpdateTrace trace c = Some (s, trace', ev') \<Longrightarrow>
     length (unknown_opcodes trace') = length (unknown_opcodes trace)
     \<and> count_raw_bytes trace' = count_raw_bytes trace + 1
     \<and> start_time trace' = start_time trace
     \<and> configuration_checked trace' = configuration_checked trace"
  by (cases "state trace") (auto simp: UpdateTrace_def Let_def dest!: idle_frame)

lemma UpdateTrace_Some:
  assumes "length (unknown_opcodes trace) = 32"
  shows "\<exists>s trace' ev'. UpdateTrace trace c = Some (s, trace', ev')
     \<and> length (unknown_opcodes trace') = 32
     \<and> count_raw_bytes trace' = count_raw_bytes trace + 1"
proof -
  from UpdateTrace_not_None [OF assms, of c]
  obtain s trace' ev' where u: "UpdateTrace trace c = Some (s, trace', ev')" by auto
  from UpdateTrace_frame [OF u] assms u show ?thesis by simp
qed

lemma feed_Some:
  assumes "length (unknown_opcodes trace) = 32"
  shows "\<exists>trace' ev. feed trace bs = Some (trace', ev)
     \<and> length (unknown_opcodes trace') = 32
     \<and> count_raw_bytes trace' = count_raw_bytes trace + of_nat (length bs)"
  using assms
proof (induction bs arbitrary: trace)
  case Nil
  then show ?case by simp
next
  case (Cons c cs)
  from UpdateTrace_Some [OF Cons.prems, of c] obtain s t1 e1 where
    u: "UpdateTrace trace c = Some (s, t1, e1)" and l: "length (unknown_opcodes t1) = 32"
    and r: "count_raw_bytes t1 = count_raw_bytes trace + 1" by blast
  from Cons.IH [of "t1\<lparr>state := s\<rparr>"] l obtain t2 e2 where
    f: "feed (t1\<lparr>state := s\<rparr>) cs = Some (t2, e2)" and l2: "length (unknown_opcodes t2) = 32"
    and r2: "count_raw_bytes t2 = count_raw_bytes (t1\<lparr>state := s\<rparr>) + of_nat (length cs)" by auto
  show ?case using u f l2 r r2 by simp
qed

text \<open>
  Claim C6. In every state whose opcode array has its 32 bytes (every state the program
  reaches), a byte is decoded without an access outside the array: \<open>UpdateTrace\<close>
  returns one next state, and \<open>count_raw_bytes\<close> goes up by one. Fed a sequence of
  bytes, the decoder goes through all of them and \<open>count_raw_bytes\<close> goes up by their
  number, in the 32 bits of the counter.
\<close>

theorem decoder_total_raw_count:
  assumes "length (unknown_opcodes trace) = 32"
  shows "(\<exists>s trace' ev. UpdateTrace trace c = Some (s, trace', ev)
            \<and> length (unknown_opcodes trace') = 32
            \<and> count_raw_bytes trace' = count_raw_bytes trace + 1)
       \<and> (\<exists>trace' ev. feed trace bs = Some (trace', ev)
            \<and> length (unknown_opcodes trace') = 32
            \<and> count_raw_bytes trace' = count_raw_bytes trace + of_nat (length bs))"
  using UpdateTrace_Some [OF assms, of c] feed_Some [OF assms, of bs] by blast

theorem decoder_total_raw_count_witness:
  "length (unknown_opcodes trace_zero) = 32
   \<and> (\<exists>s trace' ev. UpdateTrace trace_zero 0x70 = Some (s, trace', ev)
         \<and> length (unknown_opcodes trace') = 32 \<and> count_raw_bytes trace' = 1)
   \<and> (\<exists>trace' ev. feed trace_zero [0x01, 0x41, 0x04] = Some (trace', ev)
         \<and> length (unknown_opcodes trace') = 32 \<and> count_raw_bytes trace' = 3)"
proof -
  have h: "length (unknown_opcodes trace_zero) = 32" by (simp add: trace_zero_def)
  have z: "count_raw_bytes trace_zero = 0" by (simp add: trace_zero_def)
  from decoder_total_raw_count [OF h, of "0x70" "[0x01, 0x41, 0x04]"] h z
  show ?thesis by simp
qed

section \<open>The overflow byte\<close>

lemma overflow_is_local_time: "TRACE_OP_IS_OVERFLOW c \<Longrightarrow> TRACE_OP_IS_LOCAL_TIME c"
  by (simp add: TRACE_OP_IS_OVERFLOW_def TRACE_OP_IS_LOCAL_TIME_def)

lemma rest_overflow:
  "UpdateTraceIdle_rest trace ev c = Some (s, trace', ev') \<Longrightarrow>
     count_overflow trace' = count_overflow trace"
  by (auto simp: UpdateTraceIdle_rest_def opcode_bit_def opcode_set_def Let_def
      overflow_is_local_time split: if_splits option.splits)

lemma idle_overflow:
  "UpdateTraceIdle trace c = Some (s, trace', ev') \<Longrightarrow>
     count_overflow trace' = count_overflow trace"
  by (auto simp: UpdateTraceIdle_def Let_def split: if_splits dest!: rest_overflow)

lemma UpdateTrace_overflow:
  "UpdateTrace trace c = Some (s, trace', ev') \<Longrightarrow>
     count_overflow trace' = count_overflow trace"
  by (cases "state trace") (auto simp: UpdateTrace_def Let_def dest!: idle_overflow)

lemma feed_overflow:
  "feed trace bs = Some (trace', ev) \<Longrightarrow> count_overflow trace' = count_overflow trace"
proof (induction bs arbitrary: trace trace' ev)
  case Nil
  then show ?case by simp
next
  case (Cons c cs)
  from Cons.prems obtain s t1 e1 t2 e2 where
    u: "UpdateTrace trace c = Some (s, t1, e1)" and
    f: "feed (t1\<lparr>state := s\<rparr>) cs = Some (t2, e2)" and
    r: "trace' = t2"
    by (auto split: option.splits)
  from Cons.IH [OF f] UpdateTrace_overflow [OF u] r show ?case by simp
qed

text \<open>
  Claim C4. The byte 0x70 is the overflow opcode and also passes the test for a local
  timestamp, which \<open>UpdateTraceIdle\<close> makes first. So whatever bytes are fed from the
  initial state of a session (all zero but for the start time), all are decoded and
  \<open>count_overflow\<close> is still 0; in the idle state 0x70 adds one to
  \<open>count_time_packets\<close> and changes nothing else.
\<close>

theorem overflow_counter_stays_zero:
  "TRACE_OP_IS_OVERFLOW 0x70 \<and> TRACE_OP_IS_LOCAL_TIME 0x70
   \<and> (\<exists>trace' ev. feed (trace_zero\<lparr>start_time := start\<rparr>) bs = Some (trace', ev)
         \<and> count_overflow trace' = 0)
   \<and> UpdateTraceIdle trace 0x70 =
       Some (TRACE_STATE_IDLE, trace\<lparr>count_time_packets := count_time_packets trace + 1\<rparr>, [])"
proof -
  let ?init = "trace_zero\<lparr>start_time := start\<rparr>"
  have z: "length (unknown_opcodes ?init) = 32" by (simp add: trace_zero_def)
  from feed_Some [OF z, of bs] obtain trace' ev where
    f: "feed ?init bs = Some (trace', ev)" by blast
  from feed_overflow [OF f] have "count_overflow trace' = 0" by (simp add: trace_zero_def)
  with f have a: "\<exists>trace' ev. feed ?init bs = Some (trace', ev) \<and> count_overflow trace' = 0"
    by blast
  have b: "UpdateTraceIdle trace 0x70 =
       Some (TRACE_STATE_IDLE, trace\<lparr>count_time_packets := count_time_packets trace + 1\<rparr>, [])"
    by (simp add: UpdateTraceIdle_def UpdateTraceIdle_rest_def TRACE_OP_IS_TARGET_SOURCE_def
        TRACE_OP_IS_SOURCE_def TRACE_OP_IS_LOCAL_TIME_def TRACE_OP_GET_CONTINUATION_def)
  show ?thesis using a b
    by (simp add: TRACE_OP_IS_OVERFLOW_def TRACE_OP_IS_LOCAL_TIME_def)
qed

text \<open>
  Claim C1, at the decoder in its initial state, fed 0x70. The code does not count an
  overflow there: it stays idle, the byte is counted as a raw byte and as a time packet,
  \<open>count_overflow\<close> and \<open>count_error\<close> stay 0, no opcode is recorded as unknown and
  nothing is logged.
\<close>

theorem overflow_byte_in_idle:
  "UpdateTrace trace_zero 0x70 =
     Some (TRACE_STATE_IDLE, trace_zero\<lparr>count_raw_bytes := 1, count_time_packets := 1\<rparr>, [])
   \<and> count_overflow (trace_zero\<lparr>count_raw_bytes := 1, count_time_packets := 1\<rparr>) = 0
   \<and> count_error (trace_zero\<lparr>count_raw_bytes := 1, count_time_packets := 1\<rparr>) = 0
   \<and> unknown_opcodes (trace_zero\<lparr>count_raw_bytes := 1, count_time_packets := 1\<rparr>)
       = replicate 32 0"
  by (simp add: UpdateTrace_def UpdateTraceIdle_def UpdateTraceIdle_rest_def
      TRACE_OP_IS_TARGET_SOURCE_def TRACE_OP_IS_SOURCE_def TRACE_OP_IS_LOCAL_TIME_def
      TRACE_OP_GET_CONTINUATION_def trace_zero_def)

section \<open>Skipping a two-byte source packet\<close>

lemma size2_not_target:
  "TRACE_OP_GET_SOURCE_SIZE c = 2 \<Longrightarrow> \<not> TRACE_OP_IS_TARGET_SOURCE c \<and> TRACE_OP_IS_SOURCE c"
  by (auto simp: TRACE_OP_GET_SOURCE_SIZE_def TRACE_OP_IS_TARGET_SOURCE_def TRACE_OP_IS_SOURCE_def)

text \<open>
  Claim C9. Let \<open>c\<close> be a software source header with size code 2 (it then differs from
  the target output header). From the idle state \<open>c\<close> leads to \<open>TRACE_STATE_SKIP_2\<close>,
  the next byte to \<open>TRACE_STATE_SKIP_1\<close> and the one after to \<open>TRACE_STATE_IDLE\<close>.
  After the three bytes \<open>count_raw_bytes\<close> is up by 3, the address of \<open>c\<close> is in
  \<open>unknown_sources\<close>, and every other field is as before; the only event is the warning
  for the address when it was new, so nothing is written to the output.
\<close>

theorem sw_source_size2_skips_two_bytes:
  assumes sw: "TRACE_OP_IS_SW_SOURCE c" and sz: "TRACE_OP_GET_SOURCE_SIZE c = 2"
    and nt: "\<not> TRACE_OP_IS_TARGET_SOURCE c"
  shows "\<exists>ev. ev = (if unknown_sources trace AND push_bit (unat (TRACE_OP_GET_SW_SOURCE_ADDR c)) 1 = 0
                   then [Log UWARN (MsgUnsupportedSource (TRACE_OP_GET_SW_SOURCE_ADDR c) 2)]
                   else [])
     \<and> stdout_bytes ev = []
     \<and> feed (trace\<lparr>state := TRACE_STATE_IDLE\<rparr>) [c] =
           Some (trace\<lparr>state := TRACE_STATE_SKIP_2,
                       count_raw_bytes := count_raw_bytes trace + 1,
                       unknown_sources := unknown_sources trace
                          OR push_bit (unat (TRACE_OP_GET_SW_SOURCE_ADDR c)) 1\<rparr>, ev)
     \<and> feed (trace\<lparr>state := TRACE_STATE_SKIP_2\<rparr>) [b1] =
           Some (trace\<lparr>state := TRACE_STATE_SKIP_1,
                       count_raw_bytes := count_raw_bytes trace + 1\<rparr>, [])
     \<and> feed (trace\<lparr>state := TRACE_STATE_SKIP_1\<rparr>) [b2] =
           Some (trace\<lparr>state := TRACE_STATE_IDLE,
                       count_raw_bytes := count_raw_bytes trace + 1\<rparr>, [])
     \<and> feed (trace\<lparr>state := TRACE_STATE_IDLE\<rparr>) [c, b1, b2] =
           Some (trace\<lparr>state := TRACE_STATE_IDLE,
                       count_raw_bytes := count_raw_bytes trace + 3,
                       unknown_sources := unknown_sources trace
                          OR push_bit (unat (TRACE_OP_GET_SW_SOURCE_ADDR c)) 1\<rparr>, ev)"
  using assms size2_not_target [OF sz]
  by (simp add: UpdateTrace_def UpdateTraceIdle_def Let_def)

theorem sw_source_size2_skips_two_bytes_witness:
  "TRACE_OP_IS_SW_SOURCE 0x0a \<and> TRACE_OP_GET_SOURCE_SIZE 0x0a = 2
   \<and> \<not> TRACE_OP_IS_TARGET_SOURCE 0x0a
   \<and> feed (trace_zero\<lparr>state := TRACE_STATE_IDLE\<rparr>) [0x0a, 0x11, 0x22] =
        Some (trace_zero\<lparr>state := TRACE_STATE_IDLE, count_raw_bytes := 3,
                          unknown_sources := 2\<rparr>,
              [Log UWARN (MsgUnsupportedSource 1 2)])"
proof -
  have sw: "TRACE_OP_IS_SW_SOURCE 0x0a" by (simp add: TRACE_OP_IS_SW_SOURCE_def)
  have sz: "TRACE_OP_GET_SOURCE_SIZE 0x0a = 2" by (simp add: TRACE_OP_GET_SOURCE_SIZE_def)
  have nt: "\<not> TRACE_OP_IS_TARGET_SOURCE 0x0a" by (simp add: TRACE_OP_IS_TARGET_SOURCE_def)
  have a: "TRACE_OP_GET_SW_SOURCE_ADDR 0x0a = 1" by (simp add: TRACE_OP_GET_SW_SOURCE_ADDR_def)
  have z: "count_raw_bytes trace_zero = 0" "unknown_sources trace_zero = 0"
    by (simp_all add: trace_zero_def)
  from sw_source_size2_skips_two_bytes [OF sw sz nt, of trace_zero "0x11" "0x22"]
  have "feed (trace_zero\<lparr>state := TRACE_STATE_IDLE\<rparr>) [0x0a, 0x11, 0x22] =
        Some (trace_zero\<lparr>state := TRACE_STATE_IDLE, count_raw_bytes := 3,
                          unknown_sources := 2\<rparr>,
              [Log UWARN (MsgUnsupportedSource 1 2)])"
    by (simp add: a z)
  with sw sz nt show ?thesis by simp
qed

section \<open>Target output\<close>

lemma stdout_target_output: "stdout_bytes (target_output ps) = ps"
  by (induction ps) (simp_all add: target_output_def)

lemma feed_target_packets:
  "feed (trace\<lparr>state := TRACE_STATE_IDLE\<rparr>) (source_packets 0x01 ps) =
     Some (trace\<lparr>state := TRACE_STATE_IDLE,
                 count_raw_bytes := count_raw_bytes trace + of_nat (2 * length ps),
                 count_target_data := count_target_data trace + of_nat (length ps)\<rparr>,
           target_output ps)"
proof (induction ps arbitrary: trace)
  case Nil
  show ?case by (simp add: target_output_def)
next
  case (Cons p ps)
  show ?case
    by (simp add: UpdateTrace_def UpdateTraceIdle_def TRACE_OP_IS_TARGET_SOURCE_def Let_def
        Cons.IH target_output_def)
qed

text \<open>
  Claim C2, as the code has it. The header the decoder takes for target output is the
  byte 0x01: a software source with size code 1 whose address, by
  \<open>TRACE_OP_GET_SW_SOURCE_ADDR\<close>, is 0. From the idle state, a packet of that header
  and a payload byte writes the byte to the output (and flushes after a line feed),
  adds one to \<open>count_target_data\<close> and two to \<open>count_raw_bytes\<close>, and leaves the decoder
  idle with every other field unchanged. A stream of such packets writes their payload
  bytes in order and adds their number to \<open>count_target_data\<close>.
\<close>

theorem target_packets_reproduced:
  "TRACE_OP_IS_TARGET_SOURCE 0x01 \<and> TRACE_OP_IS_SW_SOURCE 0x01
   \<and> TRACE_OP_GET_SW_SOURCE_ADDR 0x01 = 0 \<and> TRACE_OP_GET_SOURCE_SIZE 0x01 = 1
   \<and> feed (trace\<lparr>state := TRACE_STATE_IDLE\<rparr>) [0x01, p] =
        Some (trace\<lparr>state := TRACE_STATE_IDLE,
                    count_raw_bytes := count_raw_bytes trace + 2,
                    count_target_data := count_target_data trace + 1\<rparr>,
              Putchar p # (if p = 0x0a then [Fflush] else []))
   \<and> feed (trace\<lparr>state := TRACE_STATE_IDLE\<rparr>) (source_packets 0x01 ps) =
        Some (trace\<lparr>state := TRACE_STATE_IDLE,
                    count_raw_bytes := count_raw_bytes trace + of_nat (2 * length ps),
                    count_target_data := count_target_data trace + of_nat (length ps)\<rparr>,
              target_output ps)
   \<and> stdout_bytes (target_output ps) = ps"
proof -
  have one: "feed (trace\<lparr>state := TRACE_STATE_IDLE\<rparr>) [0x01, p] =
        Some (trace\<lparr>state := TRACE_STATE_IDLE,
                    count_raw_bytes := count_raw_bytes trace + 2,
                    count_target_data := count_target_data trace + 1\<rparr>,
              Putchar p # (if p = 0x0a then [Fflush] else []))"
    using feed_target_packets [of trace "[p]"] by (simp add: target_output_def)
  show ?thesis
    using one feed_target_packets [of trace ps] stdout_target_output [of ps]
    by (simp add: TRACE_OP_IS_TARGET_SOURCE_def TRACE_OP_IS_SW_SOURCE_def
        TRACE_OP_GET_SW_SOURCE_ADDR_def TRACE_OP_GET_SOURCE_SIZE_def)
qed

text \<open>
  A packet whose header has address 1 and size code 1 is the byte 0x09. The decoder
  treats it as an unsupported source: it logs the warning for address 1, skips the
  payload byte, writes nothing and leaves \<open>count_target_data\<close> at 0.
\<close>

theorem address1_packet_is_skipped:
  "TRACE_OP_IS_SW_SOURCE 0x09 \<and> TRACE_OP_GET_SW_SOURCE_ADDR 0x09 = 1
   \<and> TRACE_OP_GET_SOURCE_SIZE 0x09 = 1
   \<and> feed trace_zero [0x09, 0x41] =
        Some (trace_zero\<lparr>count_raw_bytes := 2, unknown_sources := 2\<rparr>,
              [Log UWARN (MsgUnsupportedSource 1 1)])
   \<and> stdout_bytes [Log UWARN (MsgUnsupportedSource 1 1)] = []
   \<and> count_target_data (trace_zero\<lparr>count_raw_bytes := 2, unknown_sources := 2\<rparr>) = 0"
  by (simp add: UpdateTrace_def UpdateTraceIdle_def TRACE_OP_IS_TARGET_SOURCE_def
      TRACE_OP_IS_SW_SOURCE_def TRACE_OP_IS_SOURCE_def TRACE_OP_GET_SW_SOURCE_ADDR_def
      TRACE_OP_GET_SOURCE_SIZE_def Let_def trace_zero_def)

section \<open>The seen sets\<close>

lemma u8_div_mod_eq:
  "unat (c' :: u8) div 8 = unat (c :: u8) div 8 \<Longrightarrow> unat c' mod 8 = unat c mod 8 \<Longrightarrow> c' = c"
proof -
  assume a: "unat c' div 8 = unat c div 8" and b: "unat c' mod 8 = unat c mod 8"
  have "unat c' = unat c' div 8 * 8 + unat c' mod 8" by simp
  also have "\<dots> = unat c div 8 * 8 + unat c mod 8" using a b by simp
  also have "\<dots> = unat c" by simp
  finally show ?thesis by (simp add: word_unat_eq_iff)
qed

lemma bit_test_u8: "((x :: u8) AND 2 ^ k = 0) = (\<not> bit x k)"
  by (simp add: and_exp_eq_0_iff_not_bit)

lemma bit_set_u8: "k < 8 \<Longrightarrow> bit ((x :: u8) OR 2 ^ k) j = (bit x j \<or> j = k)"
  by (auto simp: bit_simps)

lemma bit_test_u32: "((x :: u32) AND 2 ^ k = 0) = (\<not> bit x k)"
  by (simp add: and_exp_eq_0_iff_not_bit)

lemma bit_set_u32: "k < 32 \<Longrightarrow> bit ((x :: u32) OR 2 ^ k) j = (bit x j \<or> j = k)"
  by (auto simp: bit_simps)

lemma addr_lt_32: "unat (TRACE_OP_GET_SW_SOURCE_ADDR c) < 32"
proof -
  have "unat c < 2 ^ LENGTH(8)" by (rule unsigned_less)
  then show ?thesis
    by (simp add: TRACE_OP_GET_SW_SOURCE_ADDR_def drop_bit_eq_div unat_div)
qed


lemma opcode_set_seen:
  assumes "length (arr :: u8 list) = 32"
  shows "bit ((arr[unat c div 8 := arr ! (unat c div 8) OR push_bit (unat c mod 8) 1])
               ! (unat c' div 8)) (unat (c' :: u8) mod 8)
         = (c' = (c :: u8) \<or> bit (arr ! (unat c' div 8)) (unat c' mod 8))"
proof (cases "unat c' div 8 = unat c div 8")
  case True
  have "unat c div 8 < length arr" using assms u8_index_lt [of c] by simp
  then show ?thesis using True u8_div_mod_eq [of c' c]
    by (auto simp: bit_set_u8)
next
  case False
  then have "c' \<noteq> c" by auto
  then show ?thesis using False by simp
qed

lemma opcode_seen_frame [simp]:
  "opcode_seen (trace\<lparr>state := s\<rparr>) c = opcode_seen trace c"
  "opcode_seen (trace\<lparr>count_raw_bytes := r\<rparr>) c = opcode_seen trace c"
  "opcode_seen (trace\<lparr>count_target_data := r\<rparr>) c = opcode_seen trace c"
  "opcode_seen (trace\<lparr>count_time_packets := r\<rparr>) c = opcode_seen trace c"
  "opcode_seen (trace\<lparr>count_overflow := r\<rparr>) c = opcode_seen trace c"
  "opcode_seen (trace\<lparr>count_error := r\<rparr>) c = opcode_seen trace c"
  "opcode_seen (trace\<lparr>unknown_sources := u\<rparr>) c = opcode_seen trace c"
  by (simp_all add: opcode_seen_def)

lemma source_seen_frame [simp]:
  "source_seen (trace\<lparr>state := s\<rparr>) a = source_seen trace a"
  "source_seen (trace\<lparr>count_raw_bytes := r\<rparr>) a = source_seen trace a"
  "source_seen (trace\<lparr>count_target_data := r\<rparr>) a = source_seen trace a"
  "source_seen (trace\<lparr>count_time_packets := r\<rparr>) a = source_seen trace a"
  "source_seen (trace\<lparr>count_overflow := r\<rparr>) a = source_seen trace a"
  "source_seen (trace\<lparr>count_error := r\<rparr>) a = source_seen trace a"
  "source_seen (trace\<lparr>unknown_opcodes := arr\<rparr>) a = source_seen trace a"
  by (simp_all add: source_seen_def)

lemma warnings_append [simp]:
  "opcode_warnings c (e1 @ e2) = opcode_warnings c e1 + opcode_warnings c e2"
  "source_warnings a (e1 @ e2) = source_warnings a e1 + source_warnings a e2"
  by (simp_all add: opcode_warnings_def source_warnings_def)

lemma warnings_simps [simp]:
  "opcode_warnings c [] = 0"
  "source_warnings a [] = 0"
  "opcode_warnings c [Log UWARN (MsgUnknownOpcode c')] = (if c' = c then 1 else 0)"
  "source_warnings a [Log UWARN (MsgUnknownOpcode c')] = 0"
  "opcode_warnings c [Log UWARN (MsgUnsupportedSource a' sz)] = 0"
  "source_warnings a [Log UWARN (MsgUnsupportedSource a' sz)] = (if a = a' then 1 else 0)"
  "opcode_warnings c (Putchar p # es) = opcode_warnings c es"
  "source_warnings a (Putchar p # es) = source_warnings a es"
  "opcode_warnings c (Fflush # es) = opcode_warnings c es"
  "source_warnings a (Fflush # es) = source_warnings a es"
  by (simp_all add: opcode_warnings_def source_warnings_def)
lemma rest_seen:
  assumes len: "length (unknown_opcodes trace) = 32"
    and r: "UpdateTraceIdle_rest trace ev c = Some (s, trace', ev')"
  shows "\<exists>new. ev' = ev @ new \<and> seen_step trace trace' new"
proof (cases "TRACE_OP_IS_LOCAL_TIME c \<or> TRACE_OP_IS_GLOBAL_TIME c \<or> TRACE_OP_IS_EXTENSION c")
  case True
  with r have "ev' = ev @ [] \<and> seen_step trace trace' []"
    by (auto simp: UpdateTraceIdle_rest_def Let_def seen_step_def split: if_splits)
  then show ?thesis by blast
next
  case False
  define arr where "arr = unknown_opcodes trace"
  define new where "new = (if arr ! (unat c div 8) AND push_bit (unat c mod 8) 1 = 0
                           then [Log UWARN (MsgUnknownOpcode c)] else [])"
  have i: "unat c div 8 < length arr" using len u8_index_lt [of c] by (simp add: arr_def)
  from r False i have e: "ev' = ev @ new"
    and a: "unknown_opcodes trace' = arr[unat c div 8 := arr ! (unat c div 8) OR push_bit (unat c mod 8) 1]"
    and u: "unknown_sources trace' = unknown_sources trace"
    by (auto simp: UpdateTraceIdle_rest_def Let_def opcode_bit_def opcode_set_def arr_def new_def
        split: if_splits)
  have l: "length arr = 32" using len by (simp add: arr_def)
  have seen': "opcode_seen trace' c' = (c' = c \<or> opcode_seen trace c')" for c'
    using opcode_set_seen [OF l, of c c'] by (simp add: opcode_seen_def a arr_def)
  have t: "(arr ! (unat c div 8) AND push_bit (unat c mod 8) 1 = 0) = (\<not> opcode_seen trace c)"
    by (simp add: opcode_seen_def arr_def bit_test_u8)
  have "seen_step trace trace' new"
    unfolding seen_step_def new_def t
    by (auto simp: seen' source_seen_def u)
  with e show ?thesis by blast
qed

lemma source_mark_seen:
  "source_seen (trace\<lparr>unknown_sources := unknown_sources trace
      OR push_bit (unat (TRACE_OP_GET_SW_SOURCE_ADDR c)) 1\<rparr>) a
   = (a = TRACE_OP_GET_SW_SOURCE_ADDR c \<or> source_seen trace a)"
  using addr_lt_32 [of c]
  by (auto simp: source_seen_def bit_set_u32 word_unat_eq_iff)

lemma source_test_seen:
  "(unknown_sources trace AND push_bit (unat a) 1 = 0) = (\<not> source_seen trace a)"
  by (simp add: source_seen_def bit_test_u32)

lemma seen_step_trans:
  assumes a: "seen_step t0 t1 e1" and b: "seen_step t1 t2 e2"
  shows "seen_step t0 t2 (e1 @ e2)"
proof -
  have o1: "opcode_warnings c e1 + (if opcode_seen t0 c then 1 else 0)
              = (if opcode_seen t1 c then 1 else 0)" for c
    using a by (simp add: seen_step_def)
  have o2: "opcode_warnings c e2 + (if opcode_seen t1 c then 1 else 0)
              = (if opcode_seen t2 c then 1 else 0)" for c
    using b by (simp add: seen_step_def)
  have s1: "source_warnings x e1 + (if source_seen t0 x then 1 else 0)
              = (if source_seen t1 x then 1 else 0)" for x
    using a by (simp add: seen_step_def)
  have s2: "source_warnings x e2 + (if source_seen t1 x then 1 else 0)
              = (if source_seen t2 x then 1 else 0)" for x
    using b by (simp add: seen_step_def)
  have o: "opcode_warnings c (e1 @ e2) + (if opcode_seen t0 c then 1 else 0)
              = (if opcode_seen t2 c then 1 else 0)" for c
  proof -
    have "opcode_warnings c (e1 @ e2) + (if opcode_seen t0 c then 1 else 0)
          = opcode_warnings c e2 + (opcode_warnings c e1 + (if opcode_seen t0 c then 1 else 0))"
      by (simp only: warnings_append ac_simps)
    also have "\<dots> = opcode_warnings c e2 + (if opcode_seen t1 c then 1 else 0)"
      by (simp only: o1)
    also have "\<dots> = (if opcode_seen t2 c then 1 else 0)" by (rule o2)
    finally show ?thesis .
  qed
  have s: "source_warnings x (e1 @ e2) + (if source_seen t0 x then 1 else 0)
              = (if source_seen t2 x then 1 else 0)" for x
  proof -
    have "source_warnings x (e1 @ e2) + (if source_seen t0 x then 1 else 0)
          = source_warnings x e2 + (source_warnings x e1 + (if source_seen t0 x then 1 else 0))"
      by (simp only: warnings_append ac_simps)
    also have "\<dots> = source_warnings x e2 + (if source_seen t1 x then 1 else 0)"
      by (simp only: s1)
    also have "\<dots> = (if source_seen t2 x then 1 else 0)" by (rule s2)
    finally show ?thesis .
  qed
  show ?thesis unfolding seen_step_def using o s by blast
qed

lemma idle_seen:
  assumes len: "length (unknown_opcodes trace) = 32"
    and r: "UpdateTraceIdle trace c = Some (s, trace', ev')"
  shows "seen_step trace trace' ev'"
proof (cases "TRACE_OP_IS_TARGET_SOURCE c")
  case True
  with r show ?thesis by (auto simp: UpdateTraceIdle_def seen_step_def)
next
  case nt: False
  show ?thesis
  proof (cases "TRACE_OP_IS_SOURCE c")
    case False
    with nt r have "UpdateTraceIdle_rest trace [] c = Some (s, trace', ev')"
      by (simp add: UpdateTraceIdle_def)
    from rest_seen [OF len this] show ?thesis by auto
  next
    case src: True
    define addr where "addr = TRACE_OP_GET_SW_SOURCE_ADDR c"
    define ev where "ev = (if TRACE_OP_IS_SW_SOURCE c \<and> unknown_sources trace AND push_bit (unat addr) 1 = 0
                   then [Log UWARN (MsgUnsupportedSource addr (TRACE_OP_GET_SOURCE_SIZE c))] else [])"
    define trace1 where "trace1 = (if TRACE_OP_IS_SW_SOURCE c
                       then trace\<lparr>unknown_sources := unknown_sources trace OR push_bit (unat addr) 1\<rparr>
                       else trace)"
    have s1: "seen_step trace trace1 ev"
      unfolding seen_step_def ev_def trace1_def addr_def
      by (auto simp: source_mark_seen source_test_seen simp del: push_bit_of_1)
    have l1: "length (unknown_opcodes trace1) = 32" using len by (simp add: trace1_def)
    from r nt src consider
      (skip) "trace' = trace1" "ev' = ev"
      | (rest) "UpdateTraceIdle_rest trace1 ev c = Some (s, trace', ev')"
      by (auto simp: UpdateTraceIdle_def Let_def ev_def trace1_def addr_def split: if_splits)
    then show ?thesis
    proof cases
      case skip
      with s1 show ?thesis by simp
    next
      case rest
      from rest_seen [OF l1 rest] obtain new where
        n: "ev' = ev @ new" and s2: "seen_step trace1 trace' new" by blast
      from seen_step_trans [OF s1 s2] n show ?thesis by simp
    qed
  qed
qed

lemma UpdateTrace_seen:
  assumes len: "length (unknown_opcodes trace) = 32"
    and r: "UpdateTrace trace c = Some (s, trace', ev')"
  shows "seen_step trace trace' ev'"
proof (cases "state trace = TRACE_STATE_IDLE")
  case True
  with r have i: "UpdateTraceIdle (trace\<lparr>count_raw_bytes := count_raw_bytes trace + 1\<rparr>) c
       = Some (s, trace', ev')"
    by (simp add: UpdateTrace_def Let_def)
  have "length (unknown_opcodes (trace\<lparr>count_raw_bytes := count_raw_bytes trace + 1\<rparr>)) = 32"
    using len by simp
  from idle_seen [OF this i] show ?thesis by (simp add: seen_step_def)
next
  case False
  with r show ?thesis
    by (cases "state trace") (auto simp: UpdateTrace_def Let_def seen_step_def)
qed

lemma feed_seen:
  assumes "length (unknown_opcodes trace) = 32" and "feed trace bs = Some (trace', ev)"
  shows "seen_step trace trace' ev"
  using assms
proof (induction bs arbitrary: trace trace' ev)
  case Nil
  then show ?case by (auto simp: seen_step_def)
next
  case (Cons c cs)
  from Cons.prems(2) obtain s t1 e1 e2 where
    u: "UpdateTrace trace c = Some (s, t1, e1)" and
    f: "feed (t1\<lparr>state := s\<rparr>) cs = Some (trace', e2)" and
    e: "ev = e1 @ e2"
    by (auto split: option.splits)
  from UpdateTrace_frame [OF u] Cons.prems(1)
  have l1: "length (unknown_opcodes (t1\<lparr>state := s\<rparr>)) = 32" by simp
  have s1: "seen_step trace (t1\<lparr>state := s\<rparr>) e1"
    using UpdateTrace_seen [OF Cons.prems(1) u] by (simp add: seen_step_def)
  from seen_step_trans [OF s1 Cons.IH [OF l1 f]] e show ?case by simp
qed

lemma seen_step_mono:
  assumes "seen_step trace trace' ev"
  shows "(opcode_seen trace c \<longrightarrow> opcode_seen trace' c)
       \<and> (source_seen trace a \<longrightarrow> source_seen trace' a)"
proof -
  have o: "opcode_warnings c ev + (if opcode_seen trace c then 1 else 0)
              = (if opcode_seen trace' c then 1 else 0)"
    using assms by (simp add: seen_step_def)
  have s: "source_warnings a ev + (if source_seen trace a then 1 else 0)
              = (if source_seen trace' a then 1 else 0)"
    using assms by (simp add: seen_step_def)
  show ?thesis using o s by (auto split: if_splits)
qed

lemma source_size_cases:
  "TRACE_OP_GET_SOURCE_SIZE c = 0 \<or> TRACE_OP_GET_SOURCE_SIZE c = 1
   \<or> TRACE_OP_GET_SOURCE_SIZE c = 2 \<or> TRACE_OP_GET_SOURCE_SIZE c = 3"
proof -
  have "c AND 3 \<le> 3" by (rule word_and_le1)
  then have "unat (c AND 3) \<le> 3" by (simp add: word_le_nat_alt)
  then have "unat (c AND 3) = 0 \<or> unat (c AND 3) = 1 \<or> unat (c AND 3) = 2 \<or> unat (c AND 3) = 3"
    by arith
  then show ?thesis
    by (auto simp: TRACE_OP_GET_SOURCE_SIZE_def word_unat_eq_iff)
qed

lemma unknown_opcode_recorded:
  assumes len: "length (unknown_opcodes trace) = 32"
    and u: "\<not> TRACE_OP_IS_SOURCE c" "\<not> TRACE_OP_IS_LOCAL_TIME c" "\<not> TRACE_OP_IS_GLOBAL_TIME c"
      "\<not> TRACE_OP_IS_EXTENSION c"
  shows "\<exists>s trace'. UpdateTraceIdle trace c =
            Some (s, trace', if opcode_seen trace c then [] else [Log UWARN (MsgUnknownOpcode c)])
          \<and> opcode_seen trace' c"
proof -
  have nt: "\<not> TRACE_OP_IS_TARGET_SOURCE c"
    using u(1) by (auto simp: TRACE_OP_IS_TARGET_SOURCE_def TRACE_OP_IS_SOURCE_def)
  have i: "unat c div 8 < length (unknown_opcodes trace)" using len u8_index_lt [of c] by simp
  have l: "length (unknown_opcodes trace) = 32" by (rule len)
  have t: "(unknown_opcodes trace ! (unat c div 8) AND 2 ^ (unat c mod 8) = 0)
            = (\<not> opcode_seen trace c)"
    by (simp add: opcode_seen_def bit_test_u8)
  show ?thesis
    using nt u i opcode_set_seen [OF l, of c c] overflow_is_local_time [of c]
    by (auto simp: UpdateTraceIdle_def UpdateTraceIdle_rest_def Let_def opcode_bit_def
        opcode_set_def opcode_seen_def t [unfolded opcode_seen_def])
qed

lemma unsupported_source_recorded:
  assumes sw: "TRACE_OP_IS_SW_SOURCE c" and nt: "\<not> TRACE_OP_IS_TARGET_SOURCE c"
  shows "\<exists>s trace'. UpdateTraceIdle trace c =
            Some (s, trace',
                  if source_seen trace (TRACE_OP_GET_SW_SOURCE_ADDR c) then []
                  else [Log UWARN (MsgUnsupportedSource (TRACE_OP_GET_SW_SOURCE_ADDR c)
                                     (TRACE_OP_GET_SOURCE_SIZE c))])
          \<and> source_seen trace' (TRACE_OP_GET_SW_SOURCE_ADDR c)"
proof -
  have src: "TRACE_OP_IS_SOURCE c"
    using sw by (simp add: TRACE_OP_IS_SW_SOURCE_def TRACE_OP_IS_SOURCE_def)
  then have z: "TRACE_OP_GET_SOURCE_SIZE c \<noteq> 0"
    by (simp add: TRACE_OP_IS_SOURCE_def TRACE_OP_GET_SOURCE_SIZE_def)
  from source_size_cases [of c] z
  have sz: "TRACE_OP_GET_SOURCE_SIZE c = 1 \<or> TRACE_OP_GET_SOURCE_SIZE c = 2
            \<or> TRACE_OP_GET_SOURCE_SIZE c = 3" by simp
  have m: "source_seen (trace\<lparr>unknown_sources := unknown_sources trace
              OR 2 ^ unat (TRACE_OP_GET_SW_SOURCE_ADDR c)\<rparr>) (TRACE_OP_GET_SW_SOURCE_ADDR c)"
    using source_mark_seen [of trace c "TRACE_OP_GET_SW_SOURCE_ADDR c"] by simp
  have t: "(unknown_sources trace AND 2 ^ unat (TRACE_OP_GET_SW_SOURCE_ADDR c) = 0)
           = (\<not> source_seen trace (TRACE_OP_GET_SW_SOURCE_ADDR c))"
    using source_test_seen [of trace "TRACE_OP_GET_SW_SOURCE_ADDR c"] by simp
  show ?thesis using sw nt src sz m
    by (auto simp: UpdateTraceIdle_def Let_def t)
qed

text \<open>
  Claim C7. Over a session (any bytes fed from its initial state) every opcode value has
  exactly one warning in the log if it is in the unknown-opcode set at the end and none
  otherwise, and the same for every source address; a repeated value adds no second
  warning. No bit of the two sets is cleared: what is seen before some bytes are fed is
  seen after. A byte met in the idle state that is no source, timestamp or extension
  header is in the unknown-opcode set afterwards, with a warning exactly when it was
  not there before; the address of a software source header other than the target
  output header is in the source set afterwards, with a warning exactly when it was
  not there before.
\<close>

theorem unknown_values_warned_once:
  assumes len: "length (unknown_opcodes trace) = 32"
  shows "(\<exists>trace' ev. feed (trace_zero\<lparr>start_time := start\<rparr>) bs = Some (trace', ev)
            \<and> (\<forall>x. opcode_warnings x ev = (if opcode_seen trace' x then 1 else 0))
            \<and> (\<forall>a. source_warnings a ev = (if source_seen trace' a then 1 else 0)))
       \<and> (\<exists>trace' ev. feed trace bs = Some (trace', ev)
            \<and> (\<forall>x. opcode_seen trace x \<longrightarrow> opcode_seen trace' x)
            \<and> (\<forall>a. source_seen trace a \<longrightarrow> source_seen trace' a))
       \<and> (\<not> TRACE_OP_IS_SOURCE c \<and> \<not> TRACE_OP_IS_LOCAL_TIME c \<and> \<not> TRACE_OP_IS_GLOBAL_TIME c
            \<and> \<not> TRACE_OP_IS_EXTENSION c \<longrightarrow>
          (\<exists>s trace'. UpdateTraceIdle trace c =
              Some (s, trace', if opcode_seen trace c then [] else [Log UWARN (MsgUnknownOpcode c)])
            \<and> opcode_seen trace' c))
       \<and> (TRACE_OP_IS_SW_SOURCE h \<and> \<not> TRACE_OP_IS_TARGET_SOURCE h \<longrightarrow>
          (\<exists>s trace'. UpdateTraceIdle trace h =
              Some (s, trace',
                    if source_seen trace (TRACE_OP_GET_SW_SOURCE_ADDR h) then []
                    else [Log UWARN (MsgUnsupportedSource (TRACE_OP_GET_SW_SOURCE_ADDR h)
                                       (TRACE_OP_GET_SOURCE_SIZE h))])
            \<and> source_seen trace' (TRACE_OP_GET_SW_SOURCE_ADDR h)))"
proof -
  let ?init = "trace_zero\<lparr>start_time := start\<rparr>"
  have z: "length (unknown_opcodes ?init) = 32" by (simp add: trace_zero_def)
  have nz: "\<not> opcode_seen ?init x" "\<not> source_seen ?init y" for x y
    using u8_index_lt [of x]
    by (simp_all add: opcode_seen_def source_seen_def trace_zero_def)
  from feed_Some [OF z, of bs] obtain t0 e0 where f0: "feed ?init bs = Some (t0, e0)"
    by blast
  from feed_seen [OF z f0] have
    "(\<forall>x. opcode_warnings x e0 = (if opcode_seen t0 x then 1 else 0))
     \<and> (\<forall>a. source_warnings a e0 = (if source_seen t0 a then 1 else 0))"
    by (simp add: seen_step_def nz)
  with f0 have p1: "\<exists>trace' ev. feed ?init bs = Some (trace', ev)
            \<and> (\<forall>x. opcode_warnings x ev = (if opcode_seen trace' x then 1 else 0))
            \<and> (\<forall>a. source_warnings a ev = (if source_seen trace' a then 1 else 0))"
    by blast
  from feed_Some [OF len, of bs] obtain t1 e1 where f1: "feed trace bs = Some (t1, e1)"
    by blast
  from seen_step_mono [OF feed_seen [OF len f1]] f1
  have p2: "\<exists>trace' ev. feed trace bs = Some (trace', ev)
            \<and> (\<forall>x. opcode_seen trace x \<longrightarrow> opcode_seen trace' x)
            \<and> (\<forall>a. source_seen trace a \<longrightarrow> source_seen trace' a)"
    by blast
  show ?thesis
    using p1 p2 unknown_opcode_recorded [OF len, of c] unsupported_source_recorded [of h trace]
    by blast
qed

theorem unknown_values_warned_once_witness:
  "length (unknown_opcodes trace_zero) = 32
   \<and> (\<exists>trace' ev. feed trace_zero [0x04, 0x04, 0x0a, 0x00, 0x00, 0x0a] = Some (trace', ev)
         \<and> opcode_warnings 0x04 ev = 1 \<and> source_warnings 1 ev = 1
         \<and> opcode_seen trace' 0x04 \<and> source_seen trace' 1)
   \<and> (\<exists>s trace'. UpdateTraceIdle trace_zero 0x04 =
          Some (s, trace', [Log UWARN (MsgUnknownOpcode 0x04)]) \<and> opcode_seen trace' 0x04)
   \<and> (\<exists>s trace'. UpdateTraceIdle trace_zero 0x0a =
          Some (s, trace', [Log UWARN (MsgUnsupportedSource 1 2)]) \<and> source_seen trace' 1)"
proof -
  have h: "length (unknown_opcodes trace_zero) = 32" by (simp add: trace_zero_def)
  have nz: "\<not> opcode_seen trace_zero 0x04" "\<not> source_seen trace_zero 1"
    by (simp_all add: opcode_seen_def source_seen_def trace_zero_def)
  have c4: "\<not> TRACE_OP_IS_SOURCE 0x04 \<and> \<not> TRACE_OP_IS_LOCAL_TIME 0x04
      \<and> \<not> TRACE_OP_IS_GLOBAL_TIME 0x04 \<and> \<not> TRACE_OP_IS_EXTENSION 0x04"
    by (simp add: TRACE_OP_IS_SOURCE_def TRACE_OP_IS_LOCAL_TIME_def TRACE_OP_IS_GLOBAL_TIME_def
        TRACE_OP_IS_EXTENSION_def)
  have ha: "TRACE_OP_IS_SW_SOURCE 0x0a \<and> \<not> TRACE_OP_IS_TARGET_SOURCE 0x0a"
    "TRACE_OP_GET_SW_SOURCE_ADDR 0x0a = 1" "TRACE_OP_GET_SOURCE_SIZE 0x0a = 2"
    by (simp_all add: TRACE_OP_IS_SW_SOURCE_def TRACE_OP_IS_TARGET_SOURCE_def
        TRACE_OP_GET_SW_SOURCE_ADDR_def TRACE_OP_GET_SOURCE_SIZE_def)
  have i: "trace_zero\<lparr>start_time := 0\<rparr> = trace_zero" by (simp add: trace_zero_def)
  note w = unknown_values_warned_once
    [OF h, of 0 "[0x04, 0x04, 0x0a, 0x00, 0x00, 0x0a]" "0x04" "0x0a", unfolded i]
  from w obtain t0 e0 where
    f: "feed trace_zero [0x04, 0x04, 0x0a, 0x00, 0x00, 0x0a] = Some (t0, e0)" and
    ow: "\<And>x. opcode_warnings x e0 = (if opcode_seen t0 x then 1 else 0)" and
    sw: "\<And>a. source_warnings a e0 = (if source_seen t0 a then 1 else 0)"
    by blast
  have "map_option snd (feed trace_zero [0x04, 0x04, 0x0a, 0x00, 0x00, 0x0a])
          = Some [Log UWARN (MsgUnknownOpcode 0x04), Log UWARN (MsgUnsupportedSource 1 2)]"
    by code_simp
  with f have e0: "e0 = [Log UWARN (MsgUnknownOpcode 0x04), Log UWARN (MsgUnsupportedSource 1 2)]"
    by simp
  have o1: "opcode_warnings 0x04 e0 = 1" and s1: "source_warnings 1 e0 = 1"
    by (simp_all add: e0 opcode_warnings_def source_warnings_def)
  have os: "opcode_seen t0 0x04"
  proof (rule ccontr)
    assume "\<not> opcode_seen t0 0x04"
    then have "opcode_warnings 0x04 e0 = 0" by (simp add: ow)
    with o1 show False by simp
  qed
  have ss: "source_seen t0 1"
  proof (rule ccontr)
    assume "\<not> source_seen t0 1"
    then have "source_warnings 1 e0 = 0" by (simp add: sw)
    with s1 show False by simp
  qed
  from w c4 nz have p3: "\<exists>s trace'. UpdateTraceIdle trace_zero 0x04 =
          Some (s, trace', [Log UWARN (MsgUnknownOpcode 0x04)]) \<and> opcode_seen trace' 0x04"
    by simp
  from w ha nz have p4: "\<exists>s trace'. UpdateTraceIdle trace_zero 0x0a =
          Some (s, trace', [Log UWARN (MsgUnsupportedSource 1 2)]) \<and> source_seen trace' 1"
    by simp
  show ?thesis using h f o1 s1 os ss p3 p4 by blast
qed

section \<open>The configuration check runs once\<close>

lemma elapsed_small:
  assumes "0 \<le> d" "d < 2 ^ 32"
  shows "((word_of_int d :: u32) < 10) = (d < 10)"
proof -
  have "uint (word_of_int d :: u32) = d"
    using assms by (simp add: uint_word_of_int)
  then show ?thesis by (simp add: word_less_alt)
qed

lemma seen_opcode_lines_Some:
  "(\<And>i. i \<in> set idx \<Longrightarrow> i div 8 < length arr) \<Longrightarrow> \<exists>es. seen_opcode_lines arr idx = Some es"
proof (induction idx)
  case Nil
  show ?case by simp
next
  case (Cons i idx)
  then obtain es where "seen_opcode_lines arr idx = Some es" by auto
  moreover have "i div 8 < length arr" using Cons.prems by simp
  ultimately show ?case by (simp add: opcode_bit_def)
qed

lemma diagnostic_report_Some:
  assumes "length (unknown_opcodes trace) = 32"
  shows "\<exists>ev. diagnostic_report trace = Some ev"
proof -
  have "\<exists>es. seen_opcode_lines (unknown_opcodes trace) [0..<256] = Some es"
    by (rule seen_opcode_lines_Some) (use assms in auto)
  then show ?thesis by (auto simp: diagnostic_report_def)
qed

lemma Check_skipped:
  "configuration_checked trace \<or> elapsed_time_s now trace < 10 \<Longrightarrow>
     CheckForConfigurationError now trace = Some (CheckSkipped, trace, [])"
  by (simp add: CheckForConfigurationError_def)

lemma Check_ran:
  assumes "length (unknown_opcodes trace) = 32"
    and "\<not> configuration_checked trace" and "\<not> elapsed_time_s now trace < 10"
  shows "\<exists>ev. CheckForConfigurationError now trace
           = Some (CheckRan, trace\<lparr>configuration_checked := True\<rparr>, ev)"
proof -
  have "length (unknown_opcodes (trace\<lparr>configuration_checked := True\<rparr>)) = 32"
    using assms(1) by simp
  from diagnostic_report_Some [OF this] obtain ev where
    "diagnostic_report (trace\<lparr>configuration_checked := True\<rparr>) = Some ev" by blast
  then show ?thesis using assms(2,3) by (simp add: CheckForConfigurationError_def Let_def)
qed

lemma Check_cases:
  assumes "length (unknown_opcodes trace) = 32"
  shows "\<exists>oc trace' ev. CheckForConfigurationError now trace = Some (oc, trace', ev)
     \<and> length (unknown_opcodes trace') = 32
     \<and> (oc = CheckRan \<longrightarrow> \<not> configuration_checked trace)
     \<and> (oc = CheckRan \<or> configuration_checked trace \<longrightarrow> configuration_checked trace')"
proof (cases "configuration_checked trace \<or> elapsed_time_s now trace < 10")
  case True
  from Check_skipped [OF this] assms show ?thesis by auto
next
  case False
  with Check_ran [OF assms, of now] assms show ?thesis by auto
qed

lemma feed_session_fields:
  "feed trace bs = Some (trace', ev) \<Longrightarrow>
     configuration_checked trace' = configuration_checked trace
     \<and> start_time trace' = start_time trace"
proof (induction bs arbitrary: trace trace' ev)
  case Nil
  then show ?case by simp
next
  case (Cons c cs)
  from Cons.prems obtain s t1 e1 e2 where
    u: "UpdateTrace trace c = Some (s, t1, e1)" and
    f: "feed (t1\<lparr>state := s\<rparr>) cs = Some (trace', e2)"
    by (auto split: option.splits)
  from Cons.IH [OF f] UpdateTrace_frame [OF u] show ?case by simp
qed

lemma ReadTrace_Some:
  assumes len: "length (unknown_opcodes trace) = 32" and fit: "n \<le> int (length buffer)"
  shows "\<exists>ok trace' ev. ReadTrace n buffer trace = Some (ok, trace', ev)
     \<and> length (unknown_opcodes trace') = 32
     \<and> configuration_checked trace' = configuration_checked trace
     \<and> start_time trace' = start_time trace"
proof -
  from feed_Some [OF len, of "take (nat n) buffer"] obtain t1 e1 where
    f: "feed trace (take (nat n) buffer) = Some (t1, e1)"
    and l: "length (unknown_opcodes t1) = 32" by blast
  from feed_session_fields [OF f] f l len fit show ?thesis
    by (auto simp: ReadTrace_def)
qed

lemma poll_loop_checks:
  assumes "length (unknown_opcodes trace) = 32"
    and "\<forall>p \<in> set polls. read_len p \<le> int (length (read_buffer p))"
  shows "\<exists>ended trace' ev ocs. poll_loop trace polls = Some (ended, trace', ev, ocs)
     \<and> count_list ocs CheckRan \<le> (if configuration_checked trace then 0 else 1)
     \<and> (configuration_checked trace \<longrightarrow> configuration_checked trace')"
  using assms
proof (induction polls arbitrary: trace)
  case Nil
  show ?case by auto
next
  case (Cons p ps)
  show ?case
  proof (cases "abort_trace p")
    case True
    then show ?thesis by auto
  next
    case False
    have fit: "read_len p \<le> int (length (read_buffer p))" using Cons.prems(2) by simp
    from ReadTrace_Some [OF Cons.prems(1) fit] obtain ok t1 e1 where
      r: "ReadTrace (read_len p) (read_buffer p) trace = Some (ok, t1, e1)"
      and l1: "length (unknown_opcodes t1) = 32"
      and c1: "configuration_checked t1 = configuration_checked trace" by blast
    show ?thesis
    proof (cases ok)
      case False
      with r \<open>\<not> abort_trace p\<close> c1 show ?thesis by auto
    next
      case True
      from Check_cases [OF l1, of "time_now p"] obtain oc t2 e2 where
        k: "CheckForConfigurationError (time_now p) t1 = Some (oc, t2, e2)"
        and l2: "length (unknown_opcodes t2) = 32"
        and k1: "oc = CheckRan \<longrightarrow> \<not> configuration_checked t1"
        and k2: "oc = CheckRan \<or> configuration_checked t1 \<longrightarrow> configuration_checked t2"
        by blast
      have "\<forall>p \<in> set ps. read_len p \<le> int (length (read_buffer p))"
        using Cons.prems(2) by simp
      from Cons.IH [OF l2 this] obtain ended t3 e3 ocs where
        n: "poll_loop t2 ps = Some (ended, t3, e3, ocs)"
        and n1: "count_list ocs CheckRan \<le> (if configuration_checked t2 then 0 else 1)"
        and n2: "configuration_checked t2 \<longrightarrow> configuration_checked t3" by blast
      have "poll_loop trace (p # ps) = Some (ended, t3, e1 @ e2 @ e3, oc # ocs)"
        using \<open>\<not> abort_trace p\<close> r True k n by simp
      moreover have "count_list (oc # ocs) CheckRan \<le> (if configuration_checked trace then 0 else 1)"
        using n1 k1 k2 c1 by (cases oc) (auto split: if_splits)
      moreover have "configuration_checked trace \<longrightarrow> configuration_checked t3"
        using k2 n2 c1 by simp
      ultimately show ?thesis by blast
    qed
  qed
qed

text \<open>
  Claim C5, as the code has it. Take the elapsed session time as
  \<open>time(NULL) - start_time\<close> where that is not negative. Before 10 seconds \<open>CheckForConfigurationError\<close> returns at once: nothing is logged
  and the state is unchanged; the same when \<open>configuration_checked\<close> is set. At the
  first call with the flag clear and at least 10 seconds elapsed (and less than
  \<open>2^32\<close>, the range of the \<open>uint32_t\<close>) it goes on to the counters and sets the
  flag, whether or not it then reports. Over any polls of the loop (with reads that fit
  the buffer) it goes on to the counters at most once, and never when the flag was set
  at the start.
\<close>

theorem configuration_check_runs_once:
  assumes len: "length (unknown_opcodes trace) = 32"
    and fit: "\<forall>p \<in> set polls. read_len p \<le> int (length (read_buffer p))"
  shows "(start_time trace \<le> now \<and> now - start_time trace < 10 \<longrightarrow>
            CheckForConfigurationError now trace = Some (CheckSkipped, trace, []))
       \<and> (configuration_checked trace \<longrightarrow>
            CheckForConfigurationError now trace = Some (CheckSkipped, trace, []))
       \<and> (\<not> configuration_checked trace \<and> 10 \<le> now - start_time trace
            \<and> now - start_time trace < 2 ^ 32 \<longrightarrow>
            (\<exists>ev. CheckForConfigurationError now trace
                    = Some (CheckRan, trace\<lparr>configuration_checked := True\<rparr>, ev)))
       \<and> (\<exists>ended trace' ev ocs. poll_loop trace polls = Some (ended, trace', ev, ocs)
            \<and> count_list ocs CheckRan \<le> 1
            \<and> (configuration_checked trace \<longrightarrow> count_list ocs CheckRan = 0))"
proof -
  have a: "CheckForConfigurationError now trace = Some (CheckSkipped, trace, [])"
    if "start_time trace \<le> now \<and> now - start_time trace < 10"
  proof -
    from that have "0 \<le> now - start_time trace" "now - start_time trace < 2 ^ 32" by simp_all
    from elapsed_small [OF this] that have "elapsed_time_s now trace < 10"
      by (simp add: elapsed_time_s_def)
    then show ?thesis by (simp add: Check_skipped)
  qed
  have b: "CheckForConfigurationError now trace = Some (CheckSkipped, trace, [])"
    if "configuration_checked trace"
    using that by (simp add: Check_skipped)
  have c: "\<exists>ev. CheckForConfigurationError now trace
                    = Some (CheckRan, trace\<lparr>configuration_checked := True\<rparr>, ev)"
    if "\<not> configuration_checked trace \<and> 10 \<le> now - start_time trace
            \<and> now - start_time trace < 2 ^ 32"
  proof -
    from that have "0 \<le> now - start_time trace" "now - start_time trace < 2 ^ 32" by simp_all
    from elapsed_small [OF this] that have "\<not> elapsed_time_s now trace < 10"
      by (simp add: elapsed_time_s_def)
    with Check_ran [OF len, of now] that show ?thesis by simp
  qed
  from poll_loop_checks [OF len fit] obtain ended trace' ev ocs where
    p: "poll_loop trace polls = Some (ended, trace', ev, ocs)"
    and n: "count_list ocs CheckRan \<le> (if configuration_checked trace then 0 else 1)"
    by blast
  from n have "count_list ocs CheckRan \<le> 1"
    "configuration_checked trace \<longrightarrow> count_list ocs CheckRan = 0"
    by (simp_all split: if_splits)
  with p have d: "\<exists>ended trace' ev ocs. poll_loop trace polls = Some (ended, trace', ev, ocs)
            \<and> count_list ocs CheckRan \<le> 1
            \<and> (configuration_checked trace \<longrightarrow> count_list ocs CheckRan = 0)"
    by blast
  show ?thesis using a b c d by blast
qed

theorem configuration_check_runs_once_witness:
  "length (unknown_opcodes trace_zero) = 32
   \<and> CheckForConfigurationError 9 trace_zero = Some (CheckSkipped, trace_zero, [])
   \<and> CheckForConfigurationError 12 (trace_zero\<lparr>configuration_checked := True\<rparr>)
        = Some (CheckSkipped, trace_zero\<lparr>configuration_checked := True\<rparr>, [])
   \<and> (\<exists>ev. CheckForConfigurationError 12 trace_zero
               = Some (CheckRan, trace_zero\<lparr>configuration_checked := True\<rparr>, ev))
   \<and> (\<exists>ended trace' ev ocs.
         poll_loop trace_zero
           [\<lparr>abort_trace = False, read_len = 2, read_buffer = [0x01, 0x41], time_now = 12\<rparr>,
            \<lparr>abort_trace = False, read_len = 0, read_buffer = [], time_now = 13\<rparr>]
           = Some (ended, trace', ev, ocs)
         \<and> count_list ocs CheckRan \<le> 1)"
proof -
  let ?polls = "[\<lparr>abort_trace = False, read_len = 2, read_buffer = [0x01, 0x41], time_now = 12\<rparr>,
            \<lparr>abort_trace = False, read_len = 0, read_buffer = [], time_now = 13\<rparr>]"
  have len: "length (unknown_opcodes trace_zero) = 32" by (simp add: trace_zero_def)
  have len': "length (unknown_opcodes (trace_zero\<lparr>configuration_checked := True\<rparr>)) = 32"
    by (simp add: trace_zero_def)
  have fit: "\<forall>p \<in> set ?polls. read_len p \<le> int (length (read_buffer p))" by simp
  have z: "start_time trace_zero = 0" "\<not> configuration_checked trace_zero"
    by (simp_all add: trace_zero_def)
  from configuration_check_runs_once [OF len fit, of 9] z
  have p1: "CheckForConfigurationError 9 trace_zero = Some (CheckSkipped, trace_zero, [])"
    by simp
  from configuration_check_runs_once [OF len' fit, of 12]
  have p2: "CheckForConfigurationError 12 (trace_zero\<lparr>configuration_checked := True\<rparr>)
        = Some (CheckSkipped, trace_zero\<lparr>configuration_checked := True\<rparr>, [])"
    by simp
  from configuration_check_runs_once [OF len fit, of 12] z
  have p3: "\<exists>ev. CheckForConfigurationError 12 trace_zero
               = Some (CheckRan, trace_zero\<lparr>configuration_checked := True\<rparr>, ev)"
    and p4: "\<exists>ended trace' ev ocs. poll_loop trace_zero ?polls = Some (ended, trace', ev, ocs)
         \<and> count_list ocs CheckRan \<le> 1"
    by auto
  show ?thesis using len p1 p2 p3 p4 by blast
qed

text \<open>
  Where the claim as written fails. The difference \<open>time(NULL) - start_time\<close> is cut
  to \<open>uint32_t\<close>. With the clock set back one second below \<open>start_time\<close>, the
  difference \<open>- 1\<close>, which is before 10 seconds, becomes 4294967295: the check goes on
  to the counters and prints its report, at the first poll of the loop.
\<close>

theorem check_reports_after_clock_step_back:
  "start_time (trace_zero\<lparr>start_time := 100\<rparr>) = 100
   \<and> \<not> configuration_checked (trace_zero\<lparr>start_time := 100\<rparr>)
   \<and> (99 :: int) - 100 < 10
   \<and> elapsed_time_s 99 (trace_zero\<lparr>start_time := 100\<rparr>) = 4294967295
   \<and> CheckForConfigurationError 99 (trace_zero\<lparr>start_time := 100\<rparr>)
       = Some (CheckRan, trace_zero\<lparr>start_time := 100, configuration_checked := True\<rparr>,
               [Log UWARN MsgStars, Log UWARN MsgNotRetrieving, Log UWARN (MsgRawBytes 0),
                Log UWARN (MsgTargetData 0), Log UWARN (MsgTimePackets 0),
                Log UWARN (MsgOverflowCount 0), Log UWARN (MsgErrors 0),
                Log UWARN MsgCheckClock, Log UWARN MsgCheckClockInit, Log UWARN MsgAcprHint,
                Log UWARN MsgStars])
   \<and> poll_loop (trace_zero\<lparr>start_time := 100\<rparr>)
         [\<lparr>abort_trace = False, read_len = 0, read_buffer = [], time_now = 99\<rparr>]
       = Some (False, trace_zero\<lparr>start_time := 100, configuration_checked := True\<rparr>,
               [TraceRead, Usleep 1000,
                Log UWARN MsgStars, Log UWARN MsgNotRetrieving, Log UWARN (MsgRawBytes 0),
                Log UWARN (MsgTargetData 0), Log UWARN (MsgTimePackets 0),
                Log UWARN (MsgOverflowCount 0), Log UWARN (MsgErrors 0),
                Log UWARN MsgCheckClock, Log UWARN MsgCheckClockInit, Log UWARN MsgAcprHint,
                Log UWARN MsgStars],
               [CheckRan])"
  by code_simp

section \<open>The serial number conversion stays in bounds\<close>







section \<open>The prescaler and the reported clock\<close>

lemma write_set [simp]:
  "(WriteMem32 a v \<in> set (Write32 env k a' d)) = (a = a' \<and> v = d)"
  "ReadMem32 a \<notin> set (Write32 env k a' d)"
  "Log UINFO m \<notin> set (Write32 env k a' d)"
  "Log UWARN m \<notin> set (Write32 env k a' d)"
  by (auto simp: Write32_def)

lemma write_run_set [simp]:
  "(WriteMem32 a v \<in> set (Write32_run env k ws)) = ((a, v) \<in> set ws)"
  "ReadMem32 a \<notin> set (Write32_run env k ws)"
  "Log UINFO m \<notin> set (Write32_run env k ws)"
  "Log UWARN m \<notin> set (Write32_run env k ws)"
  by (induction ws arbitrary: k) auto

lemma acpr_prescaler_exact:
  assumes "- (2 ^ 31) \<le> mhz * 1000000" "mhz * 1000000 < 2 ^ 31"
  shows "acpr_prescaler hdr mhz
           = word_of_int (mhz * 1000000 sdiv STLINK_TRACE_FREQUENCY hdr - 1)"
  using assms by (simp add: acpr_prescaler_def signed_take_bit_int_eq_self)

lemma clock_exact:
  assumes "0 < STLINK_TRACE_FREQUENCY hdr"
    and "(uint p + 1) * STLINK_TRACE_FREQUENCY hdr + 500000 < 2 ^ 32"
  shows "system_clock_speed_mhz hdr p
           = word_of_int (((uint p + 1) * STLINK_TRACE_FREQUENCY hdr + 500000) div 1000000)"
proof -
  let ?f = "STLINK_TRACE_FREQUENCY hdr"
  let ?x = "(uint p + 1) * ?f + 500000"
  have nn: "0 \<le> ?x" using assms(1) by simp
  have "(p + 1) * word_of_int ?f + 500000 = (word_of_int ?x :: u32)"
    by simp
  then have "system_clock_speed_mhz hdr p = (word_of_int ?x :: u32) div 1000000"
    by (simp add: system_clock_speed_mhz_def Let_def)
  also have "\<dots> = word_of_int (?x div 1000000)"
  proof -
    have "uint ((word_of_int ?x :: u32) div 1000000) = uint (word_of_int ?x :: u32) div uint (1000000 :: u32)"
      by (rule uint_div)
    also have "uint (word_of_int ?x :: u32) = ?x"
      using nn assms(2) by (simp add: uint_word_of_int del: of_int_add of_int_mult)
    finally have "uint ((word_of_int ?x :: u32) div 1000000) = ?x div 1000000" by simp
    then have "word_of_int (uint ((word_of_int ?x :: u32) div 1000000)) = (word_of_int (?x div 1000000) :: u32)"
      by simp
    then show ?thesis by simp
  qed
  finally show ?thesis .
qed


lemmas register_defs =
  ITM_TER_def ITM_TPR_def ITM_TCR_def ITM_TCC_def ITM_LAR_def DWT_CTRL_def DWT_FUNCTION0_def
  DWT_FUNCTION1_def DWT_FUNCTION2_def DWT_FUNCTION3_def TPI_CSPSR_def TPI_ACPR_def
  TPI_SPPR_def TPI_FFCR_def FP_CTRL_def DBGMCU_CR_def

lemma EnableTrace_acpr_events:
  assumes ok: "EnableTrace hdr env settings = (True, ev)"
    and a: "DCB_DHCSR hdr \<noteq> TPI_ACPR" "DCB_DEMCR hdr \<noteq> TPI_ACPR"
  shows "(WriteMem32 TPI_ACPR v \<in> set ev)
           = (core_frequency_mhz settings \<noteq> 0
              \<and> v = acpr_prescaler hdr (core_frequency_mhz settings))"
    and "ReadMem32 TPI_ACPR \<in> set ev"
    and "(Log UINFO (MsgExpectClock m) \<in> set ev)
           = (read_value env \<noteq> 0 \<and> m = system_clock_speed_mhz hdr (read_value env))"
    and "(Log UWARN MsgNotConfigured \<in> set ev) = (read_value env = 0)"
proof -
  define acpr where "acpr = (if core_frequency_mhz settings \<noteq> 0
                  then [(TPI_ACPR, acpr_prescaler hdr (core_frequency_mhz settings))]
                  else [])"
  from ok obtain pre where
    ev: "ev = pre @ Write32_run env 0
                 [(DCB_DHCSR hdr, DBGKEY hdr OR C_DEBUGEN hdr OR C_HALT hdr),
                  (DCB_DEMCR hdr, DEMCR_TRCENA hdr),
                  (FP_CTRL, FP_CTRL_KEY),
                  (DWT_FUNCTION0, 0),
                  (DWT_FUNCTION1, 0),
                  (DWT_FUNCTION2, 0),
                  (DWT_FUNCTION3, 0),
                  (DWT_CTRL, 0),
                  (DBGMCU_CR, DBGMCU_CR_DBG_SLEEP OR DBGMCU_CR_DBG_STOP OR
                              DBGMCU_CR_DBG_STANDBY OR DBGMCU_CR_TRACE_IOEN OR
                              DBGMCU_CR_TRACE_MODE_ASYNC)]
             @ TraceEnable # (if trace_enable_rc env \<noteq> 0 then [Log UERROR MsgUnableToTurnOnTracing] else [])
             @ Write32_run env 9 ((TPI_CSPSR, TPI_TPI_CSPSR_PORT_SIZE_1) # acpr)
             @ snd (Read32 env TPI_ACPR)
             @ (if read_value env \<noteq> 0
                  then [Log UINFO (MsgExpectClock (system_clock_speed_mhz hdr (read_value env)))]
                  else [Log UWARN MsgNotConfigured, Log UWARN MsgNotConfiguredOption,
                        Log UWARN MsgAcprHint])
             @ Write32_run env (10 + length acpr)
                 [(TPI_FFCR, TPI_FFCR_TRIG_IN),
                  (TPI_SPPR, TPI_SPPR_SWO_NRZ),
                  (ITM_LAR, ITM_LAR_KEY),
                  (ITM_TCC, 0x00000400),
                  (ITM_TCR, ITM_TCR_TRACE_BUS_ID_1 OR ITM_TCR_TS_ENA OR ITM_TCR_ITM_ENA),
                  (ITM_TER, ITM_TER_PORTS_ALL),
                  (ITM_TPR, ITM_TPR_PORTS_ALL),
                  (DWT_CTRL, (4 * DWT_CTRL_NUM_COMP) OR DWT_CTRL_CYC_TAP OR
                             (0xF * DWT_CTRL_POST_INIT) OR (0xF * DWT_CTRL_POST_PRESET) OR
                             DWT_CTRL_CYCCNT_ENA),
                  (DCB_DEMCR hdr, DEMCR_TRCENA hdr)]"
    and pre: "set pre \<subseteq> {ForceDebug, Reset, Log UERROR MsgUnableToDebug, Log UERROR MsgUnableToReset}"
    unfolding EnableTrace_def Let_def acpr_def Read32_def
    by (auto split: if_splits)
  have p1: "WriteMem32 TPI_ACPR v \<notin> set pre" "ReadMem32 TPI_ACPR \<notin> set pre"
    "Log UINFO (MsgExpectClock m) \<notin> set pre" "Log UWARN MsgNotConfigured \<notin> set pre"
    using pre by auto
  show "(WriteMem32 TPI_ACPR v \<in> set ev)
           = (core_frequency_mhz settings \<noteq> 0
              \<and> v = acpr_prescaler hdr (core_frequency_mhz settings))"
    using p1 a unfolding ev acpr_def
    by (auto simp: Read32_def register_defs)
  show "ReadMem32 TPI_ACPR \<in> set ev"
    unfolding ev by (simp add: Read32_def)
  show "(Log UINFO (MsgExpectClock m) \<in> set ev)
           = (read_value env \<noteq> 0 \<and> m = system_clock_speed_mhz hdr (read_value env))"
    using p1 unfolding ev by (auto simp: Read32_def)
  show "(Log UWARN MsgNotConfigured \<in> set ev) = (read_value env = 0)"
    using p1 unfolding ev by (auto simp: Read32_def)
qed

text \<open>
  Claim C10, as the code has it. Let \<open>EnableTrace\<close> run to its end, with the trace
  frequency a positive \<open>int\<close> (and the two debug registers of \<open>stlink.h\<close> not at the
  address of \<open>TPI_ACPR\<close>). If a core clock was given and its product with 1000000 fits a 32-bit
  \<open>int\<close>, the only value written to \<open>TPI_ACPR\<close> is
  \<open>core_frequency_mhz * 1000000 / STLINK_TRACE_FREQUENCY - 1\<close>, with C's truncating
  division, as a 32-bit word. If no clock was given, \<open>TPI_ACPR\<close> is not written. In
  both cases \<open>TPI_ACPR\<close> is read back. When the value read is not zero, the clock
  reported is \<open>system_clock_speed_mhz\<close> of it, computed in 32 bits, and no warning is
  logged; that is \<open>(prescaler + 1) * STLINK_TRACE_FREQUENCY\<close> rounded to MHz whenever
  \<open>(prescaler + 1) * STLINK_TRACE_FREQUENCY + 500000\<close> is below \<open>2^32\<close>. When the value
  read is zero, the warning is logged and no clock is reported.
\<close>

theorem prescaler_written_and_clock_reported:
  assumes ok: "EnableTrace hdr env settings = (True, ev)"
    and f: "0 < STLINK_TRACE_FREQUENCY hdr" "STLINK_TRACE_FREQUENCY hdr < 2 ^ 31"
    and a: "DCB_DHCSR hdr \<noteq> TPI_ACPR" "DCB_DEMCR hdr \<noteq> TPI_ACPR"
  shows "(core_frequency_mhz settings \<noteq> 0
            \<and> - (2 ^ 31) \<le> core_frequency_mhz settings * 1000000
            \<and> core_frequency_mhz settings * 1000000 < 2 ^ 31 \<longrightarrow>
          (\<forall>v. (WriteMem32 TPI_ACPR v \<in> set ev)
             = (v = word_of_int (core_frequency_mhz settings * 1000000
                                   sdiv STLINK_TRACE_FREQUENCY hdr - 1))))
       \<and> (core_frequency_mhz settings = 0 \<longrightarrow> (\<forall>v. WriteMem32 TPI_ACPR v \<notin> set ev))
       \<and> ReadMem32 TPI_ACPR \<in> set ev
       \<and> (read_value env \<noteq> 0 \<longrightarrow>
            Log UWARN MsgNotConfigured \<notin> set ev
            \<and> (\<forall>m. (Log UINFO (MsgExpectClock m) \<in> set ev)
                  = (m = system_clock_speed_mhz hdr (read_value env)))
            \<and> ((uint (read_value env) + 1) * STLINK_TRACE_FREQUENCY hdr + 500000 < 2 ^ 32 \<longrightarrow>
                 system_clock_speed_mhz hdr (read_value env)
                   = word_of_int (((uint (read_value env) + 1) * STLINK_TRACE_FREQUENCY hdr
                                     + 500000) div 1000000)))
       \<and> (read_value env = 0 \<longrightarrow>
            Log UWARN MsgNotConfigured \<in> set ev
            \<and> (\<forall>m. Log UINFO (MsgExpectClock m) \<notin> set ev))"
  using EnableTrace_acpr_events [OF ok a] acpr_prescaler_exact [of "core_frequency_mhz settings" hdr]
    clock_exact [OF f(1), of "read_value env"]
  by simp

theorem prescaler_written_and_clock_reported_witness:
  "fst (EnableTrace example_h example_env (example_settings\<lparr>core_frequency_mhz := 72\<rparr>))
   \<and> WriteMem32 TPI_ACPR 35
        \<in> set (snd (EnableTrace example_h example_env (example_settings\<lparr>core_frequency_mhz := 72\<rparr>)))
   \<and> ReadMem32 TPI_ACPR
        \<in> set (snd (EnableTrace example_h example_env (example_settings\<lparr>core_frequency_mhz := 72\<rparr>)))
   \<and> Log UINFO (MsgExpectClock 72)
        \<in> set (snd (EnableTrace example_h example_env (example_settings\<lparr>core_frequency_mhz := 72\<rparr>)))
   \<and> fst (EnableTrace example_h (example_env\<lparr>read_value := 0\<rparr>) example_settings)
   \<and> WriteMem32 TPI_ACPR 35
        \<notin> set (snd (EnableTrace example_h (example_env\<lparr>read_value := 0\<rparr>) example_settings))
   \<and> Log UWARN MsgNotConfigured
        \<in> set (snd (EnableTrace example_h (example_env\<lparr>read_value := 0\<rparr>) example_settings))"
proof -
  let ?s1 = "example_settings\<lparr>core_frequency_mhz := 72\<rparr>"
  let ?e2 = "example_env\<lparr>read_value := 0\<rparr>"
  have ok1: "EnableTrace example_h example_env ?s1
               = (True, snd (EnableTrace example_h example_env ?s1))"
    by code_simp
  have ok2: "EnableTrace example_h ?e2 example_settings
               = (True, snd (EnableTrace example_h ?e2 example_settings))"
    by code_simp
  have f: "0 < STLINK_TRACE_FREQUENCY example_h" "STLINK_TRACE_FREQUENCY example_h < 2 ^ 31"
    by (simp_all add: example_h_def)
  have a: "DCB_DHCSR example_h \<noteq> TPI_ACPR" "DCB_DEMCR example_h \<noteq> TPI_ACPR"
    by (simp_all add: example_h_def TPI_ACPR_def)
  have v1: "core_frequency_mhz ?s1 \<noteq> 0
            \<and> - (2 ^ 31) \<le> core_frequency_mhz ?s1 * 1000000
            \<and> core_frequency_mhz ?s1 * 1000000 < 2 ^ 31"
    by simp
  have w1: "(word_of_int (core_frequency_mhz ?s1 * 1000000
                sdiv STLINK_TRACE_FREQUENCY example_h - 1) :: u32) = 35"
    by (simp add: example_h_def signed_divide_int_def)
  have r1: "read_value example_env \<noteq> 0
            \<and> (uint (read_value example_env) + 1) * STLINK_TRACE_FREQUENCY example_h + 500000 < 2 ^ 32"
    by (simp add: example_env_def example_h_def)
  have c1: "(word_of_int (((uint (read_value example_env) + 1) * STLINK_TRACE_FREQUENCY example_h
                  + 500000) div 1000000) :: u32) = 72"
    by (simp add: example_env_def example_h_def)
  have z2: "core_frequency_mhz example_settings = 0" "read_value ?e2 = 0"
    by (simp_all add: example_settings_def)
  note t1 = prescaler_written_and_clock_reported [OF ok1 f a]
  note t2 = prescaler_written_and_clock_reported [OF ok2 f a]
  from t1 v1 w1 have p1: "WriteMem32 TPI_ACPR 35 \<in> set (snd (EnableTrace example_h example_env ?s1))"
    by simp
  from t1 have p2: "ReadMem32 TPI_ACPR \<in> set (snd (EnableTrace example_h example_env ?s1))"
    by simp
  from t1 r1 c1 have p3: "Log UINFO (MsgExpectClock 72) \<in> set (snd (EnableTrace example_h example_env ?s1))"
    by simp
  from t2 z2 have p4: "WriteMem32 TPI_ACPR 35 \<notin> set (snd (EnableTrace example_h ?e2 example_settings))"
    by simp
  from t2 z2 have p5: "Log UWARN MsgNotConfigured \<in> set (snd (EnableTrace example_h ?e2 example_settings))"
    by simp
  from ok1 have q1: "fst (EnableTrace example_h example_env ?s1)" by (metis fst_conv)
  from ok2 have q2: "fst (EnableTrace example_h ?e2 example_settings)" by (metis fst_conv)
  show ?thesis using p1 p2 p3 p4 p5 q1 q2 by blast
qed

text \<open>
  Where the 32 bits show. With the trace frequency 2000000 and a prescaler of 2147 read
  back, the implied clock \<open>2148 * 2000000\<close> rounds to 4296 MHz, and the program reports
  1 MHz. With a core clock of 1 MHz given, the formula is \<open>0 - 1\<close>, and the value
  written to \<open>TPI_ACPR\<close> is 4294967295.
\<close>

theorem clock_report_wraps:
  "fst (EnableTrace example_h (example_env\<lparr>read_value := 2147\<rparr>) example_settings)
   \<and> core_frequency_mhz example_settings = 0
   \<and> Log UINFO (MsgExpectClock 1)
        \<in> set (snd (EnableTrace example_h (example_env\<lparr>read_value := 2147\<rparr>) example_settings))
   \<and> ((2147 + 1) * STLINK_TRACE_FREQUENCY example_h + 500000) div 1000000 = 4296
   \<and> fst (EnableTrace example_h example_env (example_settings\<lparr>core_frequency_mhz := 1\<rparr>))
   \<and> WriteMem32 TPI_ACPR 4294967295
        \<in> set (snd (EnableTrace example_h example_env
                       (example_settings\<lparr>core_frequency_mhz := 1\<rparr>)))
   \<and> 1 * 1000000 sdiv STLINK_TRACE_FREQUENCY example_h - 1 = - 1"
  by code_simp

section \<open>The exits of the session\<close>

text \<open>
  Claim C3, at the five error exits. With the probe open and \<open>force\<close> off, each of
  them returns its code from \<open>main\<close> without a call of \<open>stlink_trace_disable\<close> or
  \<open>stlink_close\<close>: the connected chip unknown (code 3), the probe without trace support
  (5), the chip without SWO support (4), \<open>stlink_trace_enable\<close> failing (6) and
  \<open>stlink_run\<close> failing (6). The exit after the poll loop (here ended by the abort
  flag) makes both calls.
\<close>

theorem error_exits_skip_teardown:
  "exit_summary (main example_h (hex_prefix_value 0)
      (example_env\<lparr>open_usb := Some (example_stlink\<lparr>chip_id := STLINK_CHIPID_UNKNOWN example_h\<rparr>)\<rparr>)
      (Some example_settings) 0 [])
     = Some (Some APP_RESULT_STLINK_MISSING_DEVICE, False, False)
   \<and> exit_summary (main example_h (hex_prefix_value 0)
      (example_env\<lparr>open_usb := Some (example_stlink\<lparr>version_flags := 0\<rparr>)\<rparr>)
      (Some example_settings) 0 [])
     = Some (Some APP_RESULT_STLINK_UNSUPPORTED_LINK, False, False)
   \<and> exit_summary (main example_h (hex_prefix_value 0)
      (example_env\<lparr>open_usb := Some (example_stlink\<lparr>chip_flags := 0\<rparr>)\<rparr>)
      (Some example_settings) 0 [])
     = Some (Some APP_RESULT_STLINK_UNSUPPORTED_DEVICE, False, False)
   \<and> exit_summary (main example_h (hex_prefix_value 0)
      (example_env\<lparr>trace_enable_rc := 1\<rparr>) (Some example_settings) 0 [])
     = Some (Some APP_RESULT_STLINK_STATE_ERROR, False, False)
   \<and> exit_summary (main example_h (hex_prefix_value 0)
      (example_env\<lparr>run_rc := 1\<rparr>) (Some example_settings) 0 [])
     = Some (Some APP_RESULT_STLINK_STATE_ERROR, False, False)
   \<and> exit_summary (main example_h (hex_prefix_value 0) example_env (Some example_settings) 0
      [\<lparr>abort_trace = True, read_len = 0, read_buffer = [], time_now = 0\<rparr>])
     = Some (Some APP_RESULT_SUCCESS, True, True)"
  by code_simp

end
